theory Spec2Isabelle
  imports Complex_Main "HOL-Library.AList"
begin

section \<open>Connection configuration\<close>

text \<open>
  The interface \<open>JSRConfig\<close> of \<open>clients/jsr.ts\<close> (and, field for field, of the
  library's \<open>client.ts\<close>). The optional \<open>apiToken\<close> is \<open>None\<close> when it is
  \<open>undefined\<close>.
\<close>

record JSRConfig =
  apiUrl :: string
  registryUrl :: string
  apiToken :: "string option"

text \<open>
  \<open>s.replace(/\/$/, "")\<close>: the pattern has no flag, so \<open>$\<close> is the end of the
  input and the first (only) match is a slash in the last position; it is replaced by
  the empty string.
\<close>

definition removeTrailingSlash :: "string \<Rightarrow> string" where
  "removeTrailingSlash s = (if s \<noteq> [] \<and> last s = CHR ''/'' then butlast s else s)"

definition createJSRConfig :: "string \<Rightarrow> string \<Rightarrow> string option \<Rightarrow> JSRConfig" where
  "createJSRConfig apiUrl' registryUrl' apiToken' =
     \<lparr> apiUrl = removeTrailingSlash apiUrl',
       registryUrl = removeTrailingSlash registryUrl',
       apiToken = apiToken' \<rparr>"


section \<open>JSON values and JavaScript conversions\<close>

text \<open>
  Untyped values as the tool arguments and the decoded responses carry them. Numbers are
  modelled for integer values (counts, limits, pages), on which the arithmetic of the
  code is exact as long as the values stay within the safe-integer range.
  \<open>JUndefined\<close> is the value of a missing property. An object is an association list
  read by its first binding.
\<close>

datatype json =
    JUndefined
  | JNull
  | JBool bool
  | JNum int
  | JStr string
  | JArr "json list"
  | JObj "(string \<times> json) list"

text \<open>Thrown values: a \<open>ZodError\<close> with its issues, or any other \<open>Error\<close> with its message.\<close>

datatype zod_issue = Issue "string list" string

datatype exn = ZodError "zod_issue list" | Error string

text \<open>Decimal digits; \<open>digit\<close> is only applied to numbers below ten.\<close>

definition digit :: "nat \<Rightarrow> char" where
  "digit d = ''0123456789'' ! d"

fun string_of_nat :: "nat \<Rightarrow> string" where
  "string_of_nat n =
     (if n < 10 then [digit n]
      else string_of_nat (n div 10) @ [digit (n mod 10)])"

declare string_of_nat.simps [simp del]

text \<open>\<open>String(n)\<close> for an integer-valued number.\<close>

definition String_int :: "int \<Rightarrow> string" where
  "String_int i = (if i < 0 then ''-'' @ string_of_nat (nat (- i)) else string_of_nat (nat i))"

text \<open>
  A number that a division may have produced: \<open>skip / limit\<close> with \<open>limit = 0\<close> is
  \<open>NaN\<close> or an infinity.
\<close>

datatype jsnum = Fin int | NaN | PosInf | NegInf

fun String_num :: "jsnum \<Rightarrow> string" where
  "String_num (Fin i) = String_int i"
| "String_num NaN = ''NaN''"
| "String_num PosInf = ''Infinity''"
| "String_num NegInf = ''-Infinity''"

text \<open>
  \<open>Math.floor(a / b) + 1\<close> on integer-valued numbers. HOL's \<open>div\<close> on \<open>int\<close>
  rounds towards minus infinity, as \<open>Math.floor\<close> of the quotient does.
\<close>

definition floorDivPlus1 :: "int \<Rightarrow> int \<Rightarrow> jsnum" where
  "floorDivPlus1 a b =
     (if b = 0 then (if a = 0 then NaN else if 0 < a then PosInf else NegInf)
      else Fin (a div b + 1))"

text \<open>Property read \<open>v[k]\<close> on a value that is known not to be \<open>null\<close> or \<open>undefined\<close>.\<close>

fun getField :: "json \<Rightarrow> string \<Rightarrow> json" where
  "getField (JObj kvs) k = (case map_of kvs k of None \<Rightarrow> JUndefined | Some v \<Rightarrow> v)"
| "getField (JArr xs) k = (if k = ''length'' then JNum (int (length xs)) else JUndefined)"
| "getField (JStr s) k = (if k = ''length'' then JNum (int (length s)) else JUndefined)"
| "getField v k = JUndefined"

text \<open>Property read on any value: reading from \<open>undefined\<close> or \<open>null\<close> throws a \<open>TypeError\<close>.\<close>

definition getProp :: "json \<Rightarrow> string \<Rightarrow> exn + json" where
  "getProp v k =
     (if v = JUndefined then
        Inl (Error (''Cannot read properties of undefined (reading '' @ [CHR 0x27] @ k @ [CHR 0x27] @ '')''))
      else if v = JNull then
        Inl (Error (''Cannot read properties of null (reading '' @ [CHR 0x27] @ k @ [CHR 0x27] @ '')''))
      else Inr (getField v k))"

text \<open>
  Reading validated arguments at their declared types. Validation has established the
  type (or the absence) of each member before any of these is applied.
\<close>

fun asString :: "json \<Rightarrow> string" where
  "asString (JStr s) = s"
| "asString v = []"

fun asBool :: "json \<Rightarrow> bool" where
  "asBool (JBool b) = b"
| "asBool v = False"

fun optNumber :: "json \<Rightarrow> int option" where
  "optNumber (JNum n) = Some n"
| "optNumber v = None"

fun optString :: "json \<Rightarrow> string option" where
  "optString (JStr s) = Some s"
| "optString v = None"

fun ofOptNumber :: "int option \<Rightarrow> json" where
  "ofOptNumber None = JUndefined"
| "ofOptNumber (Some n) = JNum n"

fun ofOptString :: "string option \<Rightarrow> json" where
  "ofOptString None = JUndefined"
| "ofOptString (Some s) = JStr s"


section \<open>The platform: HTTP, files and built-in serialisers\<close>

datatype reqbody = TextBody string | BinaryBody "nat list"

text \<open>
  The \<open>RequestInit\<close> options of \<open>fetch\<close>; an absent member is \<open>None\<close>. The field
  \<open>httpMethod\<close> is the member that JavaScript calls \<open>method\<close>.
\<close>

record RequestInit =
  httpMethod :: "string option"
  headers :: "(string \<times> string) list option"
  body :: "reqbody option"

definition noOptions :: RequestInit where
  "noOptions = \<lparr> httpMethod = None, headers = None, body = None \<rparr>"

text \<open>
  A received response: its status line, and what \<open>response.text()\<close> and
  \<open>response.json()\<close> settle to (\<open>Inl\<close> is the message of the rejection, for
  instance of the \<open>SyntaxError\<close> of a body that is not JSON).
\<close>

record response =
  status :: nat
  statusText :: string
  bodyText :: "string + string"
  bodyJson :: "string + json"

definition ok :: "response \<Rightarrow> bool" where
  "ok r = (200 \<le> status r \<and> status r \<le> 299)"

text \<open>
  What the code takes from its platform and libraries, as parameters of the model:
  \<open>fetch\<close> (\<open>Inl\<close> is the message of a network failure), \<open>Deno.readFile\<close>,
  \<open>JSON.stringify(v)\<close> and \<open>JSON.stringify(v, null, 2)\<close>,
  \<open>URLSearchParams.toString\<close>, the message of a \<open>ZodError\<close>, zod's uuid test and
  the version string of \<open>deno.json\<close>.
\<close>

record runtime =
  fetch :: "string \<Rightarrow> RequestInit \<Rightarrow> string + response"
  readFile :: "string \<Rightarrow> string + nat list"
  stringify :: "json \<Rightarrow> string"
  stringify2 :: "json \<Rightarrow> string"
  paramsToString :: "(string \<times> string) list \<Rightarrow> string"
  zodMessage :: "zod_issue list \<Rightarrow> string"
  isUuid :: "string \<Rightarrow> bool"
  version :: string

text \<open>\<open>error instanceof Error ? error.message : String(error)\<close>; every thrown value here is an \<open>Error\<close>.\<close>

fun message :: "runtime \<Rightarrow> exn \<Rightarrow> string" where
  "message R (ZodError issues) = zodMessage R issues"
| "message R (Error m) = m"

text \<open>
  An asynchronous computation that may throw: its result, and the HTTP requests it
  issued, in order (the URL and the options given to \<open>fetch\<close>).
\<close>

type_synonym request = "string \<times> RequestInit"

type_synonym 'a outcome = "(exn + 'a) \<times> request list"

definition ret :: "'a \<Rightarrow> 'a outcome" where
  "ret x = (Inr x, [])"

definition throw :: "exn \<Rightarrow> 'a outcome" where
  "throw e = (Inl e, [])"

fun bind :: "'a outcome \<Rightarrow> ('a \<Rightarrow> 'b outcome) \<Rightarrow> 'b outcome" where
  "bind (Inl e, reqs) f = (Inl e, reqs)"
| "bind (Inr x, reqs) f = (case f x of (r, reqs') \<Rightarrow> (r, reqs @ reqs'))"

text \<open>Object spread \<open>{...base, ...extra}\<close> and assignment \<open>o[k] = v\<close> on string-keyed objects.\<close>

definition spread :: "('k \<times> 'v) list \<Rightarrow> ('k \<times> 'v) list \<Rightarrow> ('k \<times> 'v) list" where
  "spread base extra = fold (\<lambda>(k, v). AList.update k v) extra base"

text \<open>JavaScript truthiness of an optional string and of an optional number.\<close>

fun truthyString :: "string option \<Rightarrow> bool" where
  "truthyString None = False"
| "truthyString (Some s) = (s \<noteq> [])"

fun truthyNumber :: "int option \<Rightarrow> bool" where
  "truthyNumber None = False"
| "truthyNumber (Some n) = (n \<noteq> 0)"

section \<open>The request builders of \<open>clients/jsr.ts\<close>\<close>

definition apiHeaders :: "string \<Rightarrow> JSRConfig \<Rightarrow> RequestInit \<Rightarrow> (string \<times> string) list" where
  "apiHeaders userAgent config options =
     (let headers0 = spread [(''Content-Type'', ''application/json''), (''User-Agent'', userAgent)]
                        (case headers options of None \<Rightarrow> [] | Some h \<Rightarrow> h)
      in if truthyString (apiToken config)
         then AList.update ''Authorization'' (''Bearer '' @ the (apiToken config)) headers0
         else headers0)"

text \<open>The body of the \<open>try\<close> block once \<open>fetch\<close> has settled, in \<open>clients/jsr.ts\<close>.\<close>

definition apiTry :: "string + response \<Rightarrow> string + json" where
  "apiTry fetched =
     (case fetched of
        Inl m \<Rightarrow> Inl m
      | Inr response \<Rightarrow>
          if \<not> ok response then
            (case bodyText response of
               Inl m \<Rightarrow> Inl m
             | Inr errorText \<Rightarrow>
                 Inl (''JSR API request failed: '' @ string_of_nat (status response) @ '' ''
                      @ statusText response @ '': '' @ errorText))
          else bodyJson response)"

definition apiCatch :: "string + json \<Rightarrow> exn + json" where
  "apiCatch r = (case r of Inl m \<Rightarrow> Inl (Error (''JSR API request failed: '' @ m)) | Inr v \<Rightarrow> Inr v)"

definition makeApiRequest :: "runtime \<Rightarrow> JSRConfig \<Rightarrow> string \<Rightarrow> RequestInit \<Rightarrow> json outcome" where
  "makeApiRequest R config endpoint options =
     (let url = apiUrl config @ endpoint;
          headers' = apiHeaders (''jsr-mcp/'' @ version R @ ''; https://github.com/wyattjoh/jsr-mcp'')
                       config options;
          init = options\<lparr> headers := Some headers' \<rparr>
      in (apiCatch (apiTry (fetch R url init)), [(url, init)]))"

definition registryHeaders :: "string \<Rightarrow> RequestInit \<Rightarrow> (string \<times> string) list" where
  "registryHeaders userAgent options =
     spread [(''Accept'', ''application/json''), (''User-Agent'', userAgent)]
       (case headers options of None \<Rightarrow> [] | Some h \<Rightarrow> h)"

definition registryTry :: "string + response \<Rightarrow> string + json" where
  "registryTry fetched =
     (case fetched of
        Inl m \<Rightarrow> Inl m
      | Inr response \<Rightarrow>
          if \<not> ok response then
            Inl (''JSR Registry request failed: '' @ string_of_nat (status response) @ '' ''
                 @ statusText response)
          else bodyJson response)"

definition registryCatch :: "string + json \<Rightarrow> exn + json" where
  "registryCatch r =
     (case r of Inl m \<Rightarrow> Inl (Error (''JSR Registry request failed: '' @ m)) | Inr v \<Rightarrow> Inr v)"

definition makeRegistryRequest :: "runtime \<Rightarrow> JSRConfig \<Rightarrow> string \<Rightarrow> RequestInit \<Rightarrow> json outcome" where
  "makeRegistryRequest R config endpoint options =
     (let url = registryUrl config @ endpoint;
          headers' = registryHeaders (''jsr-mcp/'' @ version R @ ''; https://github.com/wyattjoh/jsr-mcp'')
                       options;
          init = options\<lparr> headers := Some headers' \<rparr>
      in (registryCatch (registryTry (fetch R url init)), [(url, init)]))"

section \<open>The request builders of the library's \<open>client.ts\<close>\<close>

text \<open>
  The library's copy differs in the \<open>User-Agent\<close> and in the branch for status 204,
  which cancels the (empty) body and returns \<open>undefined\<close> before any decoding.
\<close>

definition lib_apiTry :: "string + response \<Rightarrow> string + json" where
  "lib_apiTry fetched =
     (case fetched of
        Inl m \<Rightarrow> Inl m
      | Inr response \<Rightarrow>
          if \<not> ok response then
            (case bodyText response of
               Inl m \<Rightarrow> Inl m
             | Inr errorText \<Rightarrow>
                 Inl (''JSR API request failed: '' @ string_of_nat (status response) @ '' ''
                      @ statusText response @ '': '' @ errorText))
          else if status response = 204 then Inr JUndefined
          else bodyJson response)"

definition lib_makeApiRequest :: "runtime \<Rightarrow> JSRConfig \<Rightarrow> string \<Rightarrow> RequestInit \<Rightarrow> json outcome" where
  "lib_makeApiRequest R config endpoint options =
     (let url = apiUrl config @ endpoint;
          headers' = apiHeaders (''jsr-client/'' @ version R @ ''; https://github.com/wyattjoh/jsr-mcp'')
                       config options;
          init = options\<lparr> headers := Some headers' \<rparr>
      in (apiCatch (lib_apiTry (fetch R url init)), [(url, init)]))"


section \<open>Schema validation (zod)\<close>

text \<open>
  The schema combinators the repository uses, with the library's documented behaviour:
  no coercion between types, inclusive numeric bounds, all issues of an object
  collected, unknown keys of an object dropped from the parsed value (the default
  \<open>strip\<close> mode), a union tried option by option. The wording of the issue messages
  follows the library's defaults and carries no weight below.
\<close>

datatype strcheck = Regex "string \<Rightarrow> bool" string | Uuid | MaxLength nat

datatype numcheck = Min int | Max int

datatype zschema =
    ZString "strcheck list"
  | ZNumber "numcheck list"
  | ZBoolean
  | ZLiteral string
  | ZOptional zschema
  | ZNullable zschema
  | ZObject "(string \<times> zschema) list"
  | ZArray zschema
  | ZUnion "zschema list"

fun typeName :: "json \<Rightarrow> string" where
  "typeName JUndefined = ''undefined''"
| "typeName JNull = ''null''"
| "typeName (JBool b) = ''boolean''"
| "typeName (JNum n) = ''number''"
| "typeName (JStr s) = ''string''"
| "typeName (JArr xs) = ''array''"
| "typeName (JObj kvs) = ''object''"

definition invalidType :: "string list \<Rightarrow> string \<Rightarrow> json \<Rightarrow> zod_issue list" where
  "invalidType path expected v =
     [Issue path (if v = JUndefined then ''Required''
                  else ''Expected '' @ expected @ '', received '' @ typeName v)]"

fun checkString :: "runtime \<Rightarrow> string \<Rightarrow> strcheck \<Rightarrow> string option" where
  "checkString R s (Regex matches msg) = (if matches s then None else Some msg)"
| "checkString R s Uuid = (if isUuid R s then None else Some ''Invalid uuid'')"
| "checkString R s (MaxLength n) =
     (if length s \<le> n then None
      else Some (''String must contain at most '' @ string_of_nat n @ '' character(s)''))"

fun checkNumber :: "int \<Rightarrow> numcheck \<Rightarrow> string option" where
  "checkNumber n (Min lo) =
     (if lo \<le> n then None else Some (''Number must be greater than or equal to '' @ String_int lo))"
| "checkNumber n (Max hi) =
     (if n \<le> hi then None else Some (''Number must be less than or equal to '' @ String_int hi))"

fun isValid :: "'e + 'a \<Rightarrow> bool" where
  "isValid (Inr x) = True"
| "isValid (Inl e) = False"

fun issuesOf :: "zod_issue list + 'a \<Rightarrow> zod_issue list" where
  "issuesOf (Inl issues) = issues"
| "issuesOf (Inr x) = []"

fun valueOf :: "'e + json \<Rightarrow> json" where
  "valueOf (Inr x) = x"
| "valueOf (Inl e) = JUndefined"

fun parseAt :: "runtime \<Rightarrow> zschema \<Rightarrow> string list \<Rightarrow> json \<Rightarrow> zod_issue list + json"
  and parseShape :: "runtime \<Rightarrow> (string \<times> zschema) list \<Rightarrow> string list \<Rightarrow> (string \<times> json) list
                       \<Rightarrow> zod_issue list \<times> (string \<times> json) list"
  and parseUnion :: "runtime \<Rightarrow> zschema list \<Rightarrow> string list \<Rightarrow> json \<Rightarrow> json option"
where
  "parseAt R (ZString checks) path v =
     (case v of
        JStr s \<Rightarrow>
          (case List.map_filter (checkString R s) checks of
             [] \<Rightarrow> Inr v
           | m # ms \<Rightarrow> Inl (map (Issue path) (m # ms)))
      | _ \<Rightarrow> Inl (invalidType path ''string'' v))"
| "parseAt R (ZNumber checks) path v =
     (case v of
        JNum n \<Rightarrow>
          (case List.map_filter (checkNumber n) checks of
             [] \<Rightarrow> Inr v
           | m # ms \<Rightarrow> Inl (map (Issue path) (m # ms)))
      | _ \<Rightarrow> Inl (invalidType path ''number'' v))"
| "parseAt R ZBoolean path v =
     (case v of JBool b \<Rightarrow> Inr v | _ \<Rightarrow> Inl (invalidType path ''boolean'' v))"
| "parseAt R (ZLiteral l) path v =
     (if v = JStr l then Inr v
      else Inl [Issue path (''Invalid literal value, expected '' @ [CHR 0x22] @ l @ [CHR 0x22])])"
| "parseAt R (ZOptional inner) path v =
     (if v = JUndefined then Inr JUndefined else parseAt R inner path v)"
| "parseAt R (ZNullable inner) path v =
     (if v = JNull then Inr JNull else parseAt R inner path v)"
| "parseAt R (ZObject shape) path v =
     (case v of
        JObj kvs \<Rightarrow>
          (case parseShape R shape path kvs of
             ([], out) \<Rightarrow> Inr (JObj out)
           | (i # issues, out) \<Rightarrow> Inl (i # issues))
      | _ \<Rightarrow> Inl (invalidType path ''object'' v))"
| "parseAt R (ZArray element) path v =
     (case v of
        JArr xs \<Rightarrow>
          (let rs = map (\<lambda>(i, x). parseAt R element (path @ [string_of_nat i]) x) (enumerate 0 xs)
           in if list_all isValid rs then Inr (JArr (map valueOf rs))
              else Inl (concat (map issuesOf rs)))
      | _ \<Rightarrow> Inl (invalidType path ''array'' v))"
| "parseAt R (ZUnion options) path v =
     (case parseUnion R options path v of
        Some x \<Rightarrow> Inr x
      | None \<Rightarrow> Inl [Issue path ''Invalid input''])"
| "parseShape R [] path kvs = ([], [])"
| "parseShape R ((k, s) # shape) path kvs =
     (let r = parseAt R s (path @ [k]) (case map_of kvs k of None \<Rightarrow> JUndefined | Some x \<Rightarrow> x);
          rest = parseShape R shape path kvs
      in (issuesOf r @ fst rest,
          if isValid r \<and> (valueOf r \<noteq> JUndefined \<or> map_of kvs k \<noteq> None)
          then (k, valueOf r) # snd rest else snd rest))"
| "parseUnion R [] path v = None"
| "parseUnion R (s # options) path v =
     (case parseAt R s path v of Inr x \<Rightarrow> Some x | Inl issues \<Rightarrow> parseUnion R options path v)"

text \<open>\<open>schema.parse(args)\<close>: the parsed value, or a thrown \<open>ZodError\<close>.\<close>

definition parse :: "runtime \<Rightarrow> zschema \<Rightarrow> json \<Rightarrow> json outcome" where
  "parse R schema args =
     (case parseAt R schema [] args of Inl issues \<Rightarrow> throw (ZodError issues) | Inr v \<Rightarrow> ret v)"

text \<open>\<open>a.extend(shape)\<close> and \<open>a.merge(b)\<close> on object schemas.\<close>

fun extend :: "zschema \<Rightarrow> (string \<times> zschema) list \<Rightarrow> zschema" where
  "extend (ZObject shape) augmentation = ZObject (spread shape augmentation)"
| "extend s augmentation = s"

fun merge :: "zschema \<Rightarrow> zschema \<Rightarrow> zschema" where
  "merge (ZObject shape) (ZObject shape') = ZObject (spread shape shape')"
| "merge s s' = s"


section \<open>The tool input schemas of \<open>types/jsr.ts\<close>\<close>

definition isLower :: "char \<Rightarrow> bool" where
  "isLower c = (97 \<le> (of_char c :: nat) \<and> (of_char c :: nat) \<le> 122)"

definition isLowerAlnum :: "char \<Rightarrow> bool" where
  "isLowerAlnum c = (isLower c \<or> (48 \<le> (of_char c :: nat) \<and> (of_char c :: nat) \<le> 57))"

text \<open>The rest of the name pattern after its first letter: \<open>[a-z0-9]*(?:-[a-z0-9]+)*$\<close>.\<close>

fun nameTail :: "string \<Rightarrow> bool" where
  "nameTail [] = True"
| "nameTail (c # cs) =
     (if isLowerAlnum c then nameTail cs
      else if c = CHR ''-'' then
        (case cs of [] \<Rightarrow> False | d # ds \<Rightarrow> isLowerAlnum d \<and> nameTail ds)
      else False)"

text \<open>\<open>/^[a-z][a-z0-9]*(?:-[a-z0-9]+)*$/\<close>\<close>

definition matchesName :: "string \<Rightarrow> bool" where
  "matchesName s = (case s of [] \<Rightarrow> False | c # cs \<Rightarrow> isLower c \<and> nameTail cs)"

definition ScopeNameSchema :: zschema where
  "ScopeNameSchema = ZString [Regex matchesName ''Invalid scope name format'']"

definition PackageNameSchema :: zschema where
  "PackageNameSchema = ZString [Regex matchesName ''Invalid package name format'']"

definition RuntimeCompatSchema :: zschema where
  "RuntimeCompatSchema = ZObject
     [(''browser'', ZOptional (ZNullable ZBoolean)),
      (''deno'', ZOptional (ZNullable ZBoolean)),
      (''node'', ZOptional (ZNullable ZBoolean)),
      (''workerd'', ZOptional (ZNullable ZBoolean)),
      (''bun'', ZOptional (ZNullable ZBoolean))]"

definition VersionSchema :: zschema where
  "VersionSchema = ZString []"

text \<open>
  Modelled from the spec: \<open>PaginationSchema\<close> is imported from \<open>types/mcp.ts\<close>,
  which is not among the sources. The spec gives list operations an optional page-size
  limit and an optional skip count; the tool catalogue declares both as plain numbers,
  and the library's own \<open>PaginationSchema\<close> reads the same.
\<close>

definition PaginationSchema :: zschema where
  "PaginationSchema = ZObject
     [(''limit'', ZOptional (ZNumber [])),
      (''skip'', ZOptional (ZNumber []))]"

definition SearchPackagesSchema :: zschema where
  "SearchPackagesSchema = extend PaginationSchema [(''query'', ZOptional (ZString []))]"

definition GetPackageSchema :: zschema where
  "GetPackageSchema = ZObject [(''scope'', ScopeNameSchema), (''name'', PackageNameSchema)]"

definition GetPackageVersionSchema :: zschema where
  "GetPackageVersionSchema = extend GetPackageSchema [(''version'', VersionSchema)]"

definition ListPackageVersionsSchema :: zschema where
  "ListPackageVersionsSchema = extend GetPackageSchema
     [(''limit'', ZOptional (ZNumber [])), (''page'', ZOptional (ZNumber []))]"

definition GetScopeSchema :: zschema where
  "GetScopeSchema = ZObject [(''scope'', ScopeNameSchema)]"

definition ListScopePackagesSchema :: zschema where
  "ListScopePackagesSchema = merge GetScopeSchema PaginationSchema"

definition UserIdSchema :: zschema where
  "UserIdSchema = ZString [Uuid]"

definition PermissionSchema :: zschema where
  "PermissionSchema = ZUnion
     [ZObject [(''permission'', ZLiteral ''package/publish''), (''scope'', ScopeNameSchema)],
      ZObject [(''permission'', ZLiteral ''package/publish''), (''scope'', ScopeNameSchema),
               (''package'', PackageNameSchema)],
      ZObject [(''permission'', ZLiteral ''package/publish''), (''scope'', ScopeNameSchema),
               (''package'', PackageNameSchema), (''version'', VersionSchema),
               (''tarballHash'', ZString [])]]"

definition ListPackagesSchema :: zschema where
  "ListPackagesSchema = ZObject
     [(''limit'', ZOptional (ZNumber [Min 1, Max 100])),
      (''page'', ZOptional (ZNumber [Min 1])),
      (''query'', ZOptional (ZString []))]"

definition CreateScopeSchema :: zschema where
  "CreateScopeSchema = ZObject
     [(''scope'', ScopeNameSchema), (''description'', ZOptional (ZString []))]"

definition UpdateScopeSchema :: zschema where
  "UpdateScopeSchema = extend GetScopeSchema
     [(''ghActionsVerifyActor'', ZOptional ZBoolean),
      (''requirePublishingFromCI'', ZOptional ZBoolean)]"

definition DeleteScopeSchema :: zschema where
  "DeleteScopeSchema = GetScopeSchema"

definition AddScopeMemberSchema :: zschema where
  "AddScopeMemberSchema = extend GetScopeSchema [(''githubLogin'', ZString [])]"

definition UpdateScopeMemberSchema :: zschema where
  "UpdateScopeMemberSchema = extend GetScopeSchema
     [(''userId'', UserIdSchema), (''isAdmin'', ZBoolean)]"

definition RemoveScopeMemberSchema :: zschema where
  "RemoveScopeMemberSchema = extend GetScopeSchema [(''userId'', UserIdSchema)]"

definition DeleteScopeInviteSchema :: zschema where
  "DeleteScopeInviteSchema = extend GetScopeSchema [(''userId'', UserIdSchema)]"

definition CreatePackageSchema :: zschema where
  "CreatePackageSchema = extend GetScopeSchema [(''package'', PackageNameSchema)]"

definition UpdatePackageSchema :: zschema where
  "UpdatePackageSchema = extend GetPackageSchema
     [(''description'', ZOptional (ZString [MaxLength 250])),
      (''githubRepository'',
         ZOptional (ZNullable (ZObject [(''owner'', ZString []), (''repo'', ZString [])]))),
      (''runtimeCompat'', ZOptional RuntimeCompatSchema),
      (''isArchived'', ZOptional ZBoolean)]"

definition DeletePackageSchema :: zschema where
  "DeletePackageSchema = GetPackageSchema"

definition CreatePackageVersionSchema :: zschema where
  "CreatePackageVersionSchema = extend GetPackageVersionSchema
     [(''configPath'', ZString []), (''tarballPath'', ZString [])]"

definition UpdatePackageVersionSchema :: zschema where
  "UpdatePackageVersionSchema = extend GetPackageVersionSchema [(''yanked'', ZBoolean)]"

definition CreateAuthorizationSchema :: zschema where
  "CreateAuthorizationSchema = ZObject
     [(''challenge'', ZString []), (''permissions'', ZOptional (ZArray PermissionSchema))]"

definition GetAuthorizationDetailsSchema :: zschema where
  "GetAuthorizationDetailsSchema = ZObject [(''code'', ZString [])]"

definition ApproveAuthorizationSchema :: zschema where
  "ApproveAuthorizationSchema = ZObject [(''code'', ZString [])]"

definition DenyAuthorizationSchema :: zschema where
  "DenyAuthorizationSchema = ZObject [(''code'', ZString [])]"

definition ExchangeAuthorizationSchema :: zschema where
  "ExchangeAuthorizationSchema = ZObject
     [(''exchangeToken'', ZString []), (''verifier'', ZString [])]"

definition GetPackageDependentsSchema :: zschema where
  "GetPackageDependentsSchema = extend GetPackageSchema
     [(''limit'', ZOptional (ZNumber [Min 1, Max 100])),
      (''page'', ZOptional (ZNumber [Min 1])),
      (''versionsPerPackageLimit'', ZOptional (ZNumber [Min 1, Max 10]))]"

definition GetPackageScoreSchema :: zschema where
  "GetPackageScoreSchema = GetPackageSchema"

definition GetPackageDependenciesSchema :: zschema where
  "GetPackageDependenciesSchema = GetPackageVersionSchema"

definition GetPublishingTaskSchema :: zschema where
  "GetPublishingTaskSchema = ZObject [(''id'', ZString [Uuid])]"

definition GetUserSchema :: zschema where
  "GetUserSchema = ZObject [(''id'', UserIdSchema)]"

definition GetUserScopesSchema :: zschema where
  "GetUserScopesSchema = GetUserSchema"

definition ListScopeMembersSchema :: zschema where
  "ListScopeMembersSchema = GetScopeSchema"

definition ListScopeInvitesSchema :: zschema where
  "ListScopeInvitesSchema = GetScopeSchema"

definition GetSelfUserScopeMemberSchema :: zschema where
  "GetSelfUserScopeMemberSchema = GetScopeSchema"

definition AcceptScopeInviteSchema :: zschema where
  "AcceptScopeInviteSchema = GetScopeSchema"

definition DeclineScopeInviteSchema :: zschema where
  "DeclineScopeInviteSchema = GetScopeSchema"


section \<open>The remote operations of \<open>clients/jsr.ts\<close>\<close>

text \<open>A synchronous step that may throw, inside an asynchronous function.\<close>

definition lift :: "exn + 'a \<Rightarrow> 'a outcome" where
  "lift r = (r, [])"

text \<open>\<open>x || d\<close> on an optional number.\<close>

definition orDefault :: "int option \<Rightarrow> int \<Rightarrow> int" where
  "orDefault x d = (if truthyNumber x then the x else d)"

text \<open>\<open>if (c) params.set(k, v)\<close> on a \<open>URLSearchParams\<close>.\<close>

definition setIf :: "bool \<Rightarrow> string \<Rightarrow> string \<Rightarrow> (string \<times> string) list \<Rightarrow> (string \<times> string) list" where
  "setIf c k v params = (if c then AList.update k v params else params)"

text \<open>\<open>page > 1\<close>\<close>

fun greaterThanOne :: "jsnum \<Rightarrow> bool" where
  "greaterThanOne (Fin i) = (1 < i)"
| "greaterThanOne PosInf = True"
| "greaterThanOne NaN = False"
| "greaterThanOne NegInf = False"

text \<open>\<open>page ? (page - 1) * (limit || 20) : 0\<close>, the \<open>skip\<close> reported for a page-based listing.\<close>

definition skipOfPage :: "int option \<Rightarrow> int option \<Rightarrow> int" where
  "skipOfPage limit page = (if truthyNumber page then (the page - 1) * orDefault limit 20 else 0)"

text \<open>
  \<open>skip !== undefined ? Math.floor(skip / (limit || 20)) + 1 : 1\<close>, the page that
  \<open>listScopePackages\<close> computes from a skip count.
\<close>

definition listScopePackages_page :: "int option \<Rightarrow> int option \<Rightarrow> jsnum" where
  "listScopePackages_page limit skip =
     (if skip \<noteq> None then floorDivPlus1 (the skip) (orDefault limit 20) else Fin 1)"

definition searchPackages ::
  "runtime \<Rightarrow> JSRConfig \<Rightarrow> string option \<Rightarrow> int option \<Rightarrow> jsnum option \<Rightarrow> json outcome" where
  "searchPackages R config query limit page =
     (let params = setIf (truthyString query) ''query'' (the query) [];
          params = setIf (limit \<noteq> None) ''limit'' (String_int (the limit)) params;
          params = setIf (page \<noteq> None) ''page'' (String_num (the page)) params
      in makeApiRequest R config (''/packages?'' @ paramsToString R params) noOptions)"

definition getPackage :: "runtime \<Rightarrow> JSRConfig \<Rightarrow> string \<Rightarrow> string \<Rightarrow> json outcome" where
  "getPackage R config scope name =
     makeApiRequest R config (''/scopes/'' @ scope @ ''/packages/'' @ name) noOptions"

definition getPackageVersion ::
  "runtime \<Rightarrow> JSRConfig \<Rightarrow> string \<Rightarrow> string \<Rightarrow> string \<Rightarrow> json outcome" where
  "getPackageVersion R config scope name version' =
     makeApiRequest R config
       (''/scopes/'' @ scope @ ''/packages/'' @ name @ ''/versions/'' @ version') noOptions"

definition listPackageVersions ::
  "runtime \<Rightarrow> JSRConfig \<Rightarrow> string \<Rightarrow> string \<Rightarrow> int option \<Rightarrow> int option \<Rightarrow> json outcome" where
  "listPackageVersions R config scope name limit page =
     (let params = setIf (limit \<noteq> None) ''limit'' (String_int (the limit)) [];
          params = setIf (page \<noteq> None) ''page'' (String_int (the page)) params
      in bind (makeApiRequest R config
                 (''/scopes/'' @ scope @ ''/packages/'' @ name @ ''/versions?'' @ paramsToString R params)
                 noOptions)
           (\<lambda>response. bind (lift (getProp response ''length'')) (\<lambda>len.
              ret (JObj
                [(''data'', response),
                 (''total'', len),
                 (''returned'', len),
                 (''skip'', JNum (skipOfPage limit page)),
                 (''limit'', ofOptNumber limit)]))))"

definition getScope :: "runtime \<Rightarrow> JSRConfig \<Rightarrow> string \<Rightarrow> json outcome" where
  "getScope R config scope = makeApiRequest R config (''/scopes/'' @ scope) noOptions"

definition listScopePackages ::
  "runtime \<Rightarrow> JSRConfig \<Rightarrow> string \<Rightarrow> int option \<Rightarrow> int option \<Rightarrow> json outcome" where
  "listScopePackages R config scope limit skip =
     (let params = setIf (limit \<noteq> None) ''limit'' (String_int (the limit)) [];
          page = listScopePackages_page limit skip;
          params = setIf (greaterThanOne page) ''page'' (String_num page) params
      in bind (makeApiRequest R config
                 (''/scopes/'' @ scope @ ''/packages?'' @ paramsToString R params) noOptions)
           (\<lambda>response. bind (lift (getProp response ''items'')) (\<lambda>items.
              bind (lift (getProp items ''length'')) (\<lambda>len.
                ret (JObj
                  [(''data'', items),
                   (''total'', getField response ''total''),
                   (''returned'', len),
                   (''skip'', JNum (orDefault skip 0)),
                   (''limit'', ofOptNumber limit)])))))"

definition getPackageMetadata :: "runtime \<Rightarrow> JSRConfig \<Rightarrow> string \<Rightarrow> string \<Rightarrow> json outcome" where
  "getPackageMetadata R config scope name =
     makeRegistryRequest R config (''/@'' @ scope @ ''/'' @ name @ ''/meta.json'') noOptions"

definition listPackages ::
  "runtime \<Rightarrow> JSRConfig \<Rightarrow> int option \<Rightarrow> int option \<Rightarrow> string option \<Rightarrow> json outcome" where
  "listPackages R config limit page query =
     (let params = setIf (limit \<noteq> None) ''limit'' (String_int (the limit)) [];
          params = setIf (page \<noteq> None) ''page'' (String_int (the page)) params;
          params = setIf (truthyString query) ''query'' (the query) params
      in makeApiRequest R config (''/packages?'' @ paramsToString R params) noOptions)"

definition getPackageDependents ::
  "runtime \<Rightarrow> JSRConfig \<Rightarrow> string \<Rightarrow> string \<Rightarrow> int option \<Rightarrow> int option \<Rightarrow> int option \<Rightarrow> json outcome" where
  "getPackageDependents R config scope name limit page versionsPerPackageLimit =
     (let params = setIf (limit \<noteq> None) ''limit'' (String_int (the limit)) [];
          params = setIf (page \<noteq> None) ''page'' (String_int (the page)) params;
          params = setIf (versionsPerPackageLimit \<noteq> None) ''versions_per_package_limit''
                     (String_int (the versionsPerPackageLimit)) params
      in bind (makeApiRequest R config
                 (''/scopes/'' @ scope @ ''/packages/'' @ name @ ''/dependents?'' @ paramsToString R params)
                 noOptions)
           (\<lambda>response. bind (lift (getProp response ''items'')) (\<lambda>items.
              bind (lift (getProp items ''length'')) (\<lambda>len.
                ret (JObj
                  [(''data'', items),
                   (''total'', getField response ''total''),
                   (''returned'', len),
                   (''skip'', JNum (skipOfPage limit page)),
                   (''limit'', ofOptNumber limit)])))))"

definition getPackageScore :: "runtime \<Rightarrow> JSRConfig \<Rightarrow> string \<Rightarrow> string \<Rightarrow> json outcome" where
  "getPackageScore R config scope name =
     makeApiRequest R config (''/scopes/'' @ scope @ ''/packages/'' @ name @ ''/score'') noOptions"

definition getPackageDependencies ::
  "runtime \<Rightarrow> JSRConfig \<Rightarrow> string \<Rightarrow> string \<Rightarrow> string \<Rightarrow> json outcome" where
  "getPackageDependencies R config scope name version' =
     makeApiRequest R config
       (''/scopes/'' @ scope @ ''/packages/'' @ name @ ''/versions/'' @ version' @ ''/dependencies'')
       noOptions"

definition getCurrentUser :: "runtime \<Rightarrow> JSRConfig \<Rightarrow> json outcome" where
  "getCurrentUser R config = makeApiRequest R config ''/user'' noOptions"

definition getCurrentUserScopes :: "runtime \<Rightarrow> JSRConfig \<Rightarrow> json outcome" where
  "getCurrentUserScopes R config = makeApiRequest R config ''/user/scopes'' noOptions"

definition getCurrentUserScopeMember :: "runtime \<Rightarrow> JSRConfig \<Rightarrow> string \<Rightarrow> json outcome" where
  "getCurrentUserScopeMember R config scope =
     makeApiRequest R config (''/user/member/'' @ scope) noOptions"

definition getCurrentUserInvites :: "runtime \<Rightarrow> JSRConfig \<Rightarrow> json outcome" where
  "getCurrentUserInvites R config = makeApiRequest R config ''/user/invites'' noOptions"

definition getUser :: "runtime \<Rightarrow> JSRConfig \<Rightarrow> string \<Rightarrow> json outcome" where
  "getUser R config userId = makeApiRequest R config (''/users/'' @ userId) noOptions"

definition getUserScopes :: "runtime \<Rightarrow> JSRConfig \<Rightarrow> string \<Rightarrow> json outcome" where
  "getUserScopes R config userId =
     makeApiRequest R config (''/users/'' @ userId @ ''/scopes'') noOptions"

definition listScopeMembers :: "runtime \<Rightarrow> JSRConfig \<Rightarrow> string \<Rightarrow> json outcome" where
  "listScopeMembers R config scope =
     makeApiRequest R config (''/scopes/'' @ scope @ ''/members'') noOptions"

definition listScopeInvites :: "runtime \<Rightarrow> JSRConfig \<Rightarrow> string \<Rightarrow> json outcome" where
  "listScopeInvites R config scope =
     makeApiRequest R config (''/scopes/'' @ scope @ ''/invites'') noOptions"

definition getPublishingTask :: "runtime \<Rightarrow> JSRConfig \<Rightarrow> string \<Rightarrow> json outcome" where
  "getPublishingTask R config taskId =
     makeApiRequest R config (''/publishing_tasks/'' @ taskId) noOptions"

definition getStats :: "runtime \<Rightarrow> JSRConfig \<Rightarrow> json outcome" where
  "getStats R config = makeApiRequest R config ''/stats'' noOptions"


text \<open>Write operations. A function declared \<open>Promise<void>\<close> awaits the request and returns nothing.\<close>

definition withMethod :: "string \<Rightarrow> RequestInit" where
  "withMethod m = \<lparr> httpMethod = Some m, headers = None, body = None \<rparr>"

definition withJsonBody :: "runtime \<Rightarrow> string \<Rightarrow> json \<Rightarrow> RequestInit" where
  "withJsonBody R m v = \<lparr> httpMethod = Some m, headers = None, body = Some (TextBody (stringify R v)) \<rparr>"

definition discard :: "json outcome \<Rightarrow> unit outcome" where
  "discard r = bind r (\<lambda>_. ret ())"

definition createScope :: "runtime \<Rightarrow> JSRConfig \<Rightarrow> string \<Rightarrow> string option \<Rightarrow> json outcome" where
  "createScope R config scope description =
     makeApiRequest R config ''/scopes''
       (withJsonBody R ''POST''
          (JObj [(''scope'', JStr scope), (''description'', ofOptString description)]))"

definition updateScope :: "runtime \<Rightarrow> JSRConfig \<Rightarrow> string \<Rightarrow> json \<Rightarrow> json outcome" where
  "updateScope R config scope updates =
     makeApiRequest R config (''/scopes/'' @ scope) (withJsonBody R ''PATCH'' updates)"

definition deleteScope :: "runtime \<Rightarrow> JSRConfig \<Rightarrow> string \<Rightarrow> unit outcome" where
  "deleteScope R config scope =
     discard (makeApiRequest R config (''/scopes/'' @ scope) (withMethod ''DELETE''))"

definition addScopeMember :: "runtime \<Rightarrow> JSRConfig \<Rightarrow> string \<Rightarrow> string \<Rightarrow> json outcome" where
  "addScopeMember R config scope githubLogin =
     makeApiRequest R config (''/scopes/'' @ scope @ ''/members'')
       (withJsonBody R ''POST'' (JObj [(''githubLogin'', JStr githubLogin)]))"

definition updateScopeMember ::
  "runtime \<Rightarrow> JSRConfig \<Rightarrow> string \<Rightarrow> string \<Rightarrow> bool \<Rightarrow> json outcome" where
  "updateScopeMember R config scope userId isAdmin =
     makeApiRequest R config (''/scopes/'' @ scope @ ''/members/'' @ userId)
       (withJsonBody R ''PATCH'' (JObj [(''isAdmin'', JBool isAdmin)]))"

definition removeScopeMember :: "runtime \<Rightarrow> JSRConfig \<Rightarrow> string \<Rightarrow> string \<Rightarrow> unit outcome" where
  "removeScopeMember R config scope userId =
     discard (makeApiRequest R config (''/scopes/'' @ scope @ ''/members/'' @ userId)
                (withMethod ''DELETE''))"

definition deleteScopeInvite :: "runtime \<Rightarrow> JSRConfig \<Rightarrow> string \<Rightarrow> string \<Rightarrow> unit outcome" where
  "deleteScopeInvite R config scope userId =
     discard (makeApiRequest R config (''/scopes/'' @ scope @ ''/invites/'' @ userId)
                (withMethod ''DELETE''))"

definition createPackage :: "runtime \<Rightarrow> JSRConfig \<Rightarrow> string \<Rightarrow> string \<Rightarrow> json outcome" where
  "createPackage R config scope packageName =
     makeApiRequest R config (''/scopes/'' @ scope @ ''/packages'')
       (withJsonBody R ''POST'' (JObj [(''package'', JStr packageName)]))"

definition updatePackage ::
  "runtime \<Rightarrow> JSRConfig \<Rightarrow> string \<Rightarrow> string \<Rightarrow> json \<Rightarrow> json outcome" where
  "updatePackage R config scope name updates =
     makeApiRequest R config (''/scopes/'' @ scope @ ''/packages/'' @ name)
       (withJsonBody R ''PATCH'' updates)"

definition deletePackage :: "runtime \<Rightarrow> JSRConfig \<Rightarrow> string \<Rightarrow> string \<Rightarrow> unit outcome" where
  "deletePackage R config scope name =
     discard (makeApiRequest R config (''/scopes/'' @ scope @ ''/packages/'' @ name)
                (withMethod ''DELETE''))"

definition createPackageVersion ::
  "runtime \<Rightarrow> JSRConfig \<Rightarrow> string \<Rightarrow> string \<Rightarrow> string \<Rightarrow> string \<Rightarrow> nat list \<Rightarrow> json outcome" where
  "createPackageVersion R config scope name version' configPath tarballData =
     (let params = [(''config'', configPath)]
      in makeApiRequest R config
           (''/scopes/'' @ scope @ ''/packages/'' @ name @ ''/versions/'' @ version' @ ''?''
            @ paramsToString R params)
           \<lparr> httpMethod = Some ''POST'',
             headers = Some [(''Content-Type'', ''application/octet-stream'')],
             body = Some (BinaryBody tarballData) \<rparr>)"

definition updatePackageVersion ::
  "runtime \<Rightarrow> JSRConfig \<Rightarrow> string \<Rightarrow> string \<Rightarrow> string \<Rightarrow> bool \<Rightarrow> json outcome" where
  "updatePackageVersion R config scope name version' yanked =
     makeApiRequest R config
       (''/scopes/'' @ scope @ ''/packages/'' @ name @ ''/versions/'' @ version')
       (withJsonBody R ''PATCH'' (JObj [(''yanked'', JBool yanked)]))"

definition acceptScopeInvite :: "runtime \<Rightarrow> JSRConfig \<Rightarrow> string \<Rightarrow> json outcome" where
  "acceptScopeInvite R config scope =
     makeApiRequest R config (''/user/invites/'' @ scope) (withMethod ''POST'')"

definition declineScopeInvite :: "runtime \<Rightarrow> JSRConfig \<Rightarrow> string \<Rightarrow> unit outcome" where
  "declineScopeInvite R config scope =
     discard (makeApiRequest R config (''/user/invites/'' @ scope) (withMethod ''DELETE''))"

definition createAuthorization :: "runtime \<Rightarrow> JSRConfig \<Rightarrow> string \<Rightarrow> json \<Rightarrow> json outcome" where
  "createAuthorization R config challenge permissions =
     makeApiRequest R config ''/authorizations''
       (withJsonBody R ''POST''
          (JObj [(''challenge'', JStr challenge), (''permissions'', permissions)]))"

definition getAuthorizationDetails :: "runtime \<Rightarrow> JSRConfig \<Rightarrow> string \<Rightarrow> json outcome" where
  "getAuthorizationDetails R config code =
     makeApiRequest R config (''/authorizations/details/'' @ code) noOptions"

definition approveAuthorization :: "runtime \<Rightarrow> JSRConfig \<Rightarrow> string \<Rightarrow> unit outcome" where
  "approveAuthorization R config code =
     discard (makeApiRequest R config (''/authorizations/approve/'' @ code) (withMethod ''POST''))"

definition denyAuthorization :: "runtime \<Rightarrow> JSRConfig \<Rightarrow> string \<Rightarrow> unit outcome" where
  "denyAuthorization R config code =
     discard (makeApiRequest R config (''/authorizations/deny/'' @ code) (withMethod ''POST''))"

definition exchangeAuthorizationCode ::
  "runtime \<Rightarrow> JSRConfig \<Rightarrow> string \<Rightarrow> string \<Rightarrow> json outcome" where
  "exchangeAuthorizationCode R config exchangeToken verifier =
     makeApiRequest R config ''/authorizations/exchange''
       (withJsonBody R ''POST''
          (JObj [(''exchangeToken'', JStr exchangeToken), (''verifier'', JStr verifier)]))"

text \<open>The connectivity probe: it catches every failure of its one bounded search.\<close>

definition testConnection :: "runtime \<Rightarrow> JSRConfig \<Rightarrow> (bool \<times> string option) \<times> request list" where
  "testConnection R config =
     (case searchPackages R config None (Some 1) None of
        (Inr v, reqs) \<Rightarrow> ((True, None), reqs)
      | (Inl e, reqs) \<Rightarrow> ((False, Some (message R e)), reqs))"


section \<open>The dispatcher of \<open>tools/jsr-tools.ts\<close>\<close>

text \<open>
  Modelled from the spec: the type \<open>MCPToolResult\<close> is declared in \<open>types/mcp.ts\<close>,
  which is not among the sources. The spec's result envelope is an ordered sequence of
  content parts and an \<open>isError\<close> flag that is absent or false on success; the dispatcher
  builds text parts (\<open>type\<close> and \<open>text\<close>) and sets \<open>isError\<close> only in its \<open>catch\<close>
  block, so the flag is \<open>None\<close> when the member is absent.
\<close>

record contentPart =
  ptype :: string
  ptext :: string

record MCPToolResult =
  content :: "contentPart list"
  isError :: "bool option"

definition textResult :: "string \<Rightarrow> MCPToolResult outcome" where
  "textResult s = ret \<lparr> content = [\<lparr> ptype = ''text'', ptext = s \<rparr>], isError = None \<rparr>"

definition jsonResult :: "runtime \<Rightarrow> json \<Rightarrow> MCPToolResult outcome" where
  "jsonResult R v = textResult (stringify2 R v)"

definition errorResult :: "runtime \<Rightarrow> exn \<Rightarrow> MCPToolResult" where
  "errorResult R error =
     \<lparr> content = [\<lparr> ptype = ''text'', ptext = ''Error: '' @ message R error \<rparr>],
       isError = Some True \<rparr>"

text \<open>\<open>await Deno.readFile(path)\<close>\<close>

definition readFileAsync :: "runtime \<Rightarrow> string \<Rightarrow> (nat list) outcome" where
  "readFileAsync R path = (case readFile R path of Inl m \<Rightarrow> throw (Error m) | Inr bytes \<Rightarrow> ret bytes)"

text \<open>\<open>if (c) updates[k] = v\<close>\<close>

definition assignIf :: "bool \<Rightarrow> string \<Rightarrow> json \<Rightarrow> (string \<times> json) list \<Rightarrow> (string \<times> json) list" where
  "assignIf c k v updates = (if c then AList.update k v updates else updates)"

text \<open>
  \<open>skip !== undefined && limit !== undefined ? Math.floor(skip / limit) + 1 : undefined\<close>,
  the page of the \<open>jsr_search_packages\<close> case.
\<close>

definition handleJSRTool_searchPage :: "int option \<Rightarrow> int option \<Rightarrow> jsnum option" where
  "handleJSRTool_searchPage limit skip =
     (if skip \<noteq> None \<and> limit \<noteq> None then Some (floorDivPlus1 (the skip) (the limit)) else None)"

text \<open>
  The blocks of the \<open>switch\<close>, each from the point where its arguments are parsed
  (\<open>a\<close> is the parsed object; a block that takes no arguments has none).
\<close>

definition case_jsr_search_packages :: "runtime \<Rightarrow> JSRConfig \<Rightarrow> json \<Rightarrow> MCPToolResult outcome" where
  "case_jsr_search_packages R config a =
     (let query = optString (getField a ''query'');
          limit = optNumber (getField a ''limit'');
          skip = optNumber (getField a ''skip'');
          page = handleJSRTool_searchPage limit skip
      in bind (searchPackages R config query limit page) (jsonResult R))"

definition case_jsr_get_package :: "runtime \<Rightarrow> JSRConfig \<Rightarrow> json \<Rightarrow> MCPToolResult outcome" where
  "case_jsr_get_package R config a =
     bind (getPackage R config (asString (getField a ''scope'')) (asString (getField a ''name'')))
       (jsonResult R)"

definition case_jsr_get_package_version :: "runtime \<Rightarrow> JSRConfig \<Rightarrow> json \<Rightarrow> MCPToolResult outcome" where
  "case_jsr_get_package_version R config a =
     bind (getPackageVersion R config (asString (getField a ''scope''))
             (asString (getField a ''name'')) (asString (getField a ''version'')))
       (jsonResult R)"

definition case_jsr_list_package_versions :: "runtime \<Rightarrow> JSRConfig \<Rightarrow> json \<Rightarrow> MCPToolResult outcome" where
  "case_jsr_list_package_versions R config a =
     bind (listPackageVersions R config (asString (getField a ''scope''))
             (asString (getField a ''name'')) (optNumber (getField a ''limit''))
             (optNumber (getField a ''page'')))
       (jsonResult R)"

definition case_jsr_get_scope :: "runtime \<Rightarrow> JSRConfig \<Rightarrow> json \<Rightarrow> MCPToolResult outcome" where
  "case_jsr_get_scope R config a =
     bind (getScope R config (asString (getField a ''scope''))) (jsonResult R)"

definition case_jsr_list_scope_packages :: "runtime \<Rightarrow> JSRConfig \<Rightarrow> json \<Rightarrow> MCPToolResult outcome" where
  "case_jsr_list_scope_packages R config a =
     bind (listScopePackages R config (asString (getField a ''scope''))
             (optNumber (getField a ''limit'')) (optNumber (getField a ''skip'')))
       (jsonResult R)"

definition case_jsr_get_package_metadata :: "runtime \<Rightarrow> JSRConfig \<Rightarrow> json \<Rightarrow> MCPToolResult outcome" where
  "case_jsr_get_package_metadata R config a =
     bind (getPackageMetadata R config (asString (getField a ''scope''))
             (asString (getField a ''name'')))
       (jsonResult R)"

definition case_jsr_list_packages :: "runtime \<Rightarrow> JSRConfig \<Rightarrow> json \<Rightarrow> MCPToolResult outcome" where
  "case_jsr_list_packages R config a =
     bind (listPackages R config (optNumber (getField a ''limit''))
             (optNumber (getField a ''page'')) (optString (getField a ''query'')))
       (jsonResult R)"

definition case_jsr_get_package_dependents :: "runtime \<Rightarrow> JSRConfig \<Rightarrow> json \<Rightarrow> MCPToolResult outcome" where
  "case_jsr_get_package_dependents R config a =
     bind (getPackageDependents R config (asString (getField a ''scope''))
             (asString (getField a ''name'')) (optNumber (getField a ''limit''))
             (optNumber (getField a ''page''))
             (optNumber (getField a ''versionsPerPackageLimit'')))
       (jsonResult R)"

definition case_jsr_get_package_score :: "runtime \<Rightarrow> JSRConfig \<Rightarrow> json \<Rightarrow> MCPToolResult outcome" where
  "case_jsr_get_package_score R config a =
     bind (getPackageScore R config (asString (getField a ''scope''))
             (asString (getField a ''name'')))
       (jsonResult R)"

definition case_jsr_get_package_dependencies :: "runtime \<Rightarrow> JSRConfig \<Rightarrow> json \<Rightarrow> MCPToolResult outcome" where
  "case_jsr_get_package_dependencies R config a =
     bind (getPackageDependencies R config (asString (getField a ''scope''))
             (asString (getField a ''name'')) (asString (getField a ''version'')))
       (jsonResult R)"

definition case_jsr_get_current_user :: "runtime \<Rightarrow> JSRConfig \<Rightarrow> MCPToolResult outcome" where
  "case_jsr_get_current_user R config =
     bind (getCurrentUser R config) (jsonResult R)"

definition case_jsr_get_current_user_scopes :: "runtime \<Rightarrow> JSRConfig \<Rightarrow> MCPToolResult outcome" where
  "case_jsr_get_current_user_scopes R config =
     bind (getCurrentUserScopes R config) (jsonResult R)"

definition case_jsr_get_current_user_scope_member :: "runtime \<Rightarrow> JSRConfig \<Rightarrow> json \<Rightarrow> MCPToolResult outcome" where
  "case_jsr_get_current_user_scope_member R config a =
     bind (getCurrentUserScopeMember R config (asString (getField a ''scope''))) (jsonResult R)"

definition case_jsr_get_current_user_invites :: "runtime \<Rightarrow> JSRConfig \<Rightarrow> MCPToolResult outcome" where
  "case_jsr_get_current_user_invites R config =
     bind (getCurrentUserInvites R config) (jsonResult R)"

definition case_jsr_get_user :: "runtime \<Rightarrow> JSRConfig \<Rightarrow> json \<Rightarrow> MCPToolResult outcome" where
  "case_jsr_get_user R config a =
     bind (getUser R config (asString (getField a ''id''))) (jsonResult R)"

definition case_jsr_get_user_scopes :: "runtime \<Rightarrow> JSRConfig \<Rightarrow> json \<Rightarrow> MCPToolResult outcome" where
  "case_jsr_get_user_scopes R config a =
     bind (getUserScopes R config (asString (getField a ''id''))) (jsonResult R)"

definition case_jsr_list_scope_members :: "runtime \<Rightarrow> JSRConfig \<Rightarrow> json \<Rightarrow> MCPToolResult outcome" where
  "case_jsr_list_scope_members R config a =
     bind (listScopeMembers R config (asString (getField a ''scope''))) (jsonResult R)"

definition case_jsr_list_scope_invites :: "runtime \<Rightarrow> JSRConfig \<Rightarrow> json \<Rightarrow> MCPToolResult outcome" where
  "case_jsr_list_scope_invites R config a =
     bind (listScopeInvites R config (asString (getField a ''scope''))) (jsonResult R)"

definition case_jsr_get_publishing_task :: "runtime \<Rightarrow> JSRConfig \<Rightarrow> json \<Rightarrow> MCPToolResult outcome" where
  "case_jsr_get_publishing_task R config a =
     bind (getPublishingTask R config (asString (getField a ''id''))) (jsonResult R)"

definition case_jsr_get_stats :: "runtime \<Rightarrow> JSRConfig \<Rightarrow> MCPToolResult outcome" where
  "case_jsr_get_stats R config =
     bind (getStats R config) (jsonResult R)"

definition case_jsr_create_scope :: "runtime \<Rightarrow> JSRConfig \<Rightarrow> json \<Rightarrow> MCPToolResult outcome" where
  "case_jsr_create_scope R config a =
     bind (createScope R config (asString (getField a ''scope''))
             (optString (getField a ''description'')))
       (jsonResult R)"

definition case_jsr_update_scope :: "runtime \<Rightarrow> JSRConfig \<Rightarrow> json \<Rightarrow> MCPToolResult outcome" where
  "case_jsr_update_scope R config a =
     (let ghActionsVerifyActor = getField a ''ghActionsVerifyActor'';
          requirePublishingFromCI = getField a ''requirePublishingFromCI'';
          updates = assignIf (ghActionsVerifyActor \<noteq> JUndefined)
                      ''ghActionsVerifyActor'' ghActionsVerifyActor [];
          updates = assignIf (requirePublishingFromCI \<noteq> JUndefined)
                      ''requirePublishingFromCI'' requirePublishingFromCI updates
      in bind (updateScope R config (asString (getField a ''scope'')) (JObj updates))
           (jsonResult R))"

definition case_jsr_delete_scope :: "runtime \<Rightarrow> JSRConfig \<Rightarrow> json \<Rightarrow> MCPToolResult outcome" where
  "case_jsr_delete_scope R config a =
     bind (deleteScope R config (asString (getField a ''scope'')))
       (\<lambda>_. textResult ''Scope deleted successfully'')"

definition case_jsr_add_scope_member :: "runtime \<Rightarrow> JSRConfig \<Rightarrow> json \<Rightarrow> MCPToolResult outcome" where
  "case_jsr_add_scope_member R config a =
     bind (addScopeMember R config (asString (getField a ''scope''))
             (asString (getField a ''githubLogin'')))
       (jsonResult R)"

definition case_jsr_update_scope_member :: "runtime \<Rightarrow> JSRConfig \<Rightarrow> json \<Rightarrow> MCPToolResult outcome" where
  "case_jsr_update_scope_member R config a =
     bind (updateScopeMember R config (asString (getField a ''scope''))
             (asString (getField a ''userId'')) (asBool (getField a ''isAdmin'')))
       (jsonResult R)"

definition case_jsr_remove_scope_member :: "runtime \<Rightarrow> JSRConfig \<Rightarrow> json \<Rightarrow> MCPToolResult outcome" where
  "case_jsr_remove_scope_member R config a =
     bind (removeScopeMember R config (asString (getField a ''scope''))
             (asString (getField a ''userId'')))
       (\<lambda>_. textResult ''Scope member removed successfully'')"

definition case_jsr_delete_scope_invite :: "runtime \<Rightarrow> JSRConfig \<Rightarrow> json \<Rightarrow> MCPToolResult outcome" where
  "case_jsr_delete_scope_invite R config a =
     bind (deleteScopeInvite R config (asString (getField a ''scope''))
             (asString (getField a ''userId'')))
       (\<lambda>_. textResult ''Scope invite deleted successfully'')"

definition case_jsr_create_package :: "runtime \<Rightarrow> JSRConfig \<Rightarrow> json \<Rightarrow> MCPToolResult outcome" where
  "case_jsr_create_package R config a =
     bind (createPackage R config (asString (getField a ''scope''))
             (asString (getField a ''package'')))
       (jsonResult R)"

definition case_jsr_update_package :: "runtime \<Rightarrow> JSRConfig \<Rightarrow> json \<Rightarrow> MCPToolResult outcome" where
  "case_jsr_update_package R config a =
     (let description = getField a ''description'';
          githubRepository = getField a ''githubRepository'';
          runtimeCompat = getField a ''runtimeCompat'';
          isArchived = getField a ''isArchived'';
          updates = assignIf (description \<noteq> JUndefined) ''description'' description [];
          updates = assignIf (githubRepository \<noteq> JUndefined)
                      ''githubRepository'' githubRepository updates;
          updates = assignIf (runtimeCompat \<noteq> JUndefined) ''runtimeCompat'' runtimeCompat updates;
          updates = assignIf (isArchived \<noteq> JUndefined) ''isArchived'' isArchived updates
      in bind (updatePackage R config (asString (getField a ''scope''))
                 (asString (getField a ''name'')) (JObj updates))
           (jsonResult R))"

definition case_jsr_delete_package :: "runtime \<Rightarrow> JSRConfig \<Rightarrow> json \<Rightarrow> MCPToolResult outcome" where
  "case_jsr_delete_package R config a =
     bind (deletePackage R config (asString (getField a ''scope''))
             (asString (getField a ''name'')))
       (\<lambda>_. textResult ''Package deleted successfully'')"

definition case_jsr_create_package_version :: "runtime \<Rightarrow> JSRConfig \<Rightarrow> json \<Rightarrow> MCPToolResult outcome" where
  "case_jsr_create_package_version R config a =
     bind (readFileAsync R (asString (getField a ''tarballPath''))) (\<lambda>tarballData.
       bind (createPackageVersion R config (asString (getField a ''scope''))
               (asString (getField a ''name'')) (asString (getField a ''version''))
               (asString (getField a ''configPath'')) tarballData)
         (jsonResult R))"

definition case_jsr_update_package_version :: "runtime \<Rightarrow> JSRConfig \<Rightarrow> json \<Rightarrow> MCPToolResult outcome" where
  "case_jsr_update_package_version R config a =
     bind (updatePackageVersion R config (asString (getField a ''scope''))
             (asString (getField a ''name'')) (asString (getField a ''version''))
             (asBool (getField a ''yanked'')))
       (jsonResult R)"

definition case_jsr_accept_scope_invite :: "runtime \<Rightarrow> JSRConfig \<Rightarrow> json \<Rightarrow> MCPToolResult outcome" where
  "case_jsr_accept_scope_invite R config a =
     bind (acceptScopeInvite R config (asString (getField a ''scope''))) (jsonResult R)"

definition case_jsr_decline_scope_invite :: "runtime \<Rightarrow> JSRConfig \<Rightarrow> json \<Rightarrow> MCPToolResult outcome" where
  "case_jsr_decline_scope_invite R config a =
     bind (declineScopeInvite R config (asString (getField a ''scope'')))
       (\<lambda>_. textResult ''Scope invite declined successfully'')"

definition case_jsr_create_authorization :: "runtime \<Rightarrow> JSRConfig \<Rightarrow> json \<Rightarrow> MCPToolResult outcome" where
  "case_jsr_create_authorization R config a =
     bind (createAuthorization R config (asString (getField a ''challenge''))
             (getField a ''permissions''))
       (jsonResult R)"

definition case_jsr_get_authorization_details :: "runtime \<Rightarrow> JSRConfig \<Rightarrow> json \<Rightarrow> MCPToolResult outcome" where
  "case_jsr_get_authorization_details R config a =
     bind (getAuthorizationDetails R config (asString (getField a ''code''))) (jsonResult R)"

definition case_jsr_approve_authorization :: "runtime \<Rightarrow> JSRConfig \<Rightarrow> json \<Rightarrow> MCPToolResult outcome" where
  "case_jsr_approve_authorization R config a =
     bind (approveAuthorization R config (asString (getField a ''code'')))
       (\<lambda>_. textResult ''Authorization approved successfully'')"

definition case_jsr_deny_authorization :: "runtime \<Rightarrow> JSRConfig \<Rightarrow> json \<Rightarrow> MCPToolResult outcome" where
  "case_jsr_deny_authorization R config a =
     bind (denyAuthorization R config (asString (getField a ''code'')))
       (\<lambda>_. textResult ''Authorization denied successfully'')"

definition case_jsr_exchange_authorization :: "runtime \<Rightarrow> JSRConfig \<Rightarrow> json \<Rightarrow> MCPToolResult outcome" where
  "case_jsr_exchange_authorization R config a =
     bind (exchangeAuthorizationCode R config (asString (getField a ''exchangeToken''))
             (asString (getField a ''verifier'')))
       (jsonResult R)"

text \<open>The \<open>try\<close> block: the \<open>switch\<close> on the tool name, each case parsing its arguments first.\<close>

definition handleJSRTool_try :: "runtime \<Rightarrow> string \<Rightarrow> json \<Rightarrow> JSRConfig \<Rightarrow> MCPToolResult outcome" where
  "handleJSRTool_try R name args config =
     (if name = ''jsr_search_packages'' then
        bind (parse R SearchPackagesSchema args) (case_jsr_search_packages R config)
      else if name = ''jsr_get_package'' then
        bind (parse R GetPackageSchema args) (case_jsr_get_package R config)
      else if name = ''jsr_get_package_version'' then
        bind (parse R GetPackageVersionSchema args) (case_jsr_get_package_version R config)
      else if name = ''jsr_list_package_versions'' then
        bind (parse R ListPackageVersionsSchema args) (case_jsr_list_package_versions R config)
      else if name = ''jsr_get_scope'' then
        bind (parse R GetScopeSchema args) (case_jsr_get_scope R config)
      else if name = ''jsr_list_scope_packages'' then
        bind (parse R ListScopePackagesSchema args) (case_jsr_list_scope_packages R config)
      else if name = ''jsr_get_package_metadata'' then
        bind (parse R GetPackageSchema args) (case_jsr_get_package_metadata R config)
      else if name = ''jsr_list_packages'' then
        bind (parse R ListPackagesSchema args) (case_jsr_list_packages R config)
      else if name = ''jsr_get_package_dependents'' then
        bind (parse R GetPackageDependentsSchema args) (case_jsr_get_package_dependents R config)
      else if name = ''jsr_get_package_score'' then
        bind (parse R GetPackageScoreSchema args) (case_jsr_get_package_score R config)
      else if name = ''jsr_get_package_dependencies'' then
        bind (parse R GetPackageDependenciesSchema args) (case_jsr_get_package_dependencies R config)
      else if name = ''jsr_get_current_user'' then
        case_jsr_get_current_user R config
      else if name = ''jsr_get_current_user_scopes'' then
        case_jsr_get_current_user_scopes R config
      else if name = ''jsr_get_current_user_scope_member'' then
        bind (parse R GetSelfUserScopeMemberSchema args) (case_jsr_get_current_user_scope_member R config)
      else if name = ''jsr_get_current_user_invites'' then
        case_jsr_get_current_user_invites R config
      else if name = ''jsr_get_user'' then
        bind (parse R GetUserSchema args) (case_jsr_get_user R config)
      else if name = ''jsr_get_user_scopes'' then
        bind (parse R GetUserScopesSchema args) (case_jsr_get_user_scopes R config)
      else if name = ''jsr_list_scope_members'' then
        bind (parse R ListScopeMembersSchema args) (case_jsr_list_scope_members R config)
      else if name = ''jsr_list_scope_invites'' then
        bind (parse R ListScopeInvitesSchema args) (case_jsr_list_scope_invites R config)
      else if name = ''jsr_get_publishing_task'' then
        bind (parse R GetPublishingTaskSchema args) (case_jsr_get_publishing_task R config)
      else if name = ''jsr_get_stats'' then
        case_jsr_get_stats R config
      else if name = ''jsr_create_scope'' then
        bind (parse R CreateScopeSchema args) (case_jsr_create_scope R config)
      else if name = ''jsr_update_scope'' then
        bind (parse R UpdateScopeSchema args) (case_jsr_update_scope R config)
      else if name = ''jsr_delete_scope'' then
        bind (parse R DeleteScopeSchema args) (case_jsr_delete_scope R config)
      else if name = ''jsr_add_scope_member'' then
        bind (parse R AddScopeMemberSchema args) (case_jsr_add_scope_member R config)
      else if name = ''jsr_update_scope_member'' then
        bind (parse R UpdateScopeMemberSchema args) (case_jsr_update_scope_member R config)
      else if name = ''jsr_remove_scope_member'' then
        bind (parse R RemoveScopeMemberSchema args) (case_jsr_remove_scope_member R config)
      else if name = ''jsr_delete_scope_invite'' then
        bind (parse R DeleteScopeInviteSchema args) (case_jsr_delete_scope_invite R config)
      else if name = ''jsr_create_package'' then
        bind (parse R CreatePackageSchema args) (case_jsr_create_package R config)
      else if name = ''jsr_update_package'' then
        bind (parse R UpdatePackageSchema args) (case_jsr_update_package R config)
      else if name = ''jsr_delete_package'' then
        bind (parse R DeletePackageSchema args) (case_jsr_delete_package R config)
      else if name = ''jsr_create_package_version'' then
        bind (parse R CreatePackageVersionSchema args) (case_jsr_create_package_version R config)
      else if name = ''jsr_update_package_version'' then
        bind (parse R UpdatePackageVersionSchema args) (case_jsr_update_package_version R config)
      else if name = ''jsr_accept_scope_invite'' then
        bind (parse R AcceptScopeInviteSchema args) (case_jsr_accept_scope_invite R config)
      else if name = ''jsr_decline_scope_invite'' then
        bind (parse R DeclineScopeInviteSchema args) (case_jsr_decline_scope_invite R config)
      else if name = ''jsr_create_authorization'' then
        bind (parse R CreateAuthorizationSchema args) (case_jsr_create_authorization R config)
      else if name = ''jsr_get_authorization_details'' then
        bind (parse R GetAuthorizationDetailsSchema args) (case_jsr_get_authorization_details R config)
      else if name = ''jsr_approve_authorization'' then
        bind (parse R ApproveAuthorizationSchema args) (case_jsr_approve_authorization R config)
      else if name = ''jsr_deny_authorization'' then
        bind (parse R DenyAuthorizationSchema args) (case_jsr_deny_authorization R config)
      else if name = ''jsr_exchange_authorization'' then
        bind (parse R ExchangeAuthorizationSchema args) (case_jsr_exchange_authorization R config)
      else throw (Error (''Unknown JSR tool: '' @ name)))"

text \<open>The whole function: whatever the \<open>try\<close> block throws becomes an error envelope.\<close>

definition handleJSRTool :: "runtime \<Rightarrow> string \<Rightarrow> json \<Rightarrow> JSRConfig \<Rightarrow> MCPToolResult \<times> request list" where
  "handleJSRTool R name args config =
     (case handleJSRTool_try R name args config of
        (Inr result, reqs) \<Rightarrow> (result, reqs)
      | (Inl error, reqs) \<Rightarrow> (errorResult R error, reqs))"


section \<open>The tool handlers of the server package\<close>

text \<open>
  The server package registers one handler per tool with the protocol library, which
  validates the arguments before it calls the handler; the handlers use the library's
  \<open>client.ts\<close>. Two of them are modelled, from the validated arguments on.
\<close>

definition lib_searchPackages ::
  "runtime \<Rightarrow> JSRConfig \<Rightarrow> string option \<Rightarrow> int option \<Rightarrow> jsnum option \<Rightarrow> json outcome" where
  "lib_searchPackages R config query limit page =
     (let params = setIf (truthyString query) ''query'' (the query) [];
          params = setIf (limit \<noteq> None) ''limit'' (String_int (the limit)) params;
          params = setIf (page \<noteq> None) ''page'' (String_num (the page)) params
      in lib_makeApiRequest R config (''/packages?'' @ paramsToString R params) noOptions)"

definition lib_createPackageVersion ::
  "runtime \<Rightarrow> JSRConfig \<Rightarrow> string \<Rightarrow> string \<Rightarrow> string \<Rightarrow> string \<Rightarrow> nat list \<Rightarrow> json outcome" where
  "lib_createPackageVersion R config scope name version' configPath tarballData =
     (let params = [(''config'', configPath)]
      in lib_makeApiRequest R config
           (''/scopes/'' @ scope @ ''/packages/'' @ name @ ''/versions/'' @ version' @ ''?''
            @ paramsToString R params)
           \<lparr> httpMethod = Some ''POST'',
             headers = Some [(''Content-Type'', ''application/octet-stream'')],
             body = Some (BinaryBody tarballData) \<rparr>)"

text \<open>The \<open>try\<close>/\<open>catch\<close> every handler of the server package is wrapped in.\<close>

definition serverCatch :: "runtime \<Rightarrow> json outcome \<Rightarrow> MCPToolResult \<times> request list" where
  "serverCatch R r =
     (case r of
        (Inr result, reqs) \<Rightarrow>
          (\<lparr> content = [\<lparr> ptype = ''text'', ptext = stringify2 R result \<rparr>], isError = None \<rparr>, reqs)
      | (Inl error, reqs) \<Rightarrow>
          (\<lparr> content = [\<lparr> ptype = ''text'', ptext = ''Error: '' @ message R error \<rparr>],
             isError = None \<rparr>, reqs))"

text \<open>
  \<open>args.skip ? Math.floor(args.skip / (args.limit || 20)) + 1 : undefined\<close>, the page the
  \<open>jsr_search_packages\<close> handler passes on.
\<close>

definition server_searchPage :: "int option \<Rightarrow> int option \<Rightarrow> jsnum option" where
  "server_searchPage limit skip =
     (if truthyNumber skip then Some (floorDivPlus1 (the skip) (orDefault limit 20)) else None)"

definition server_jsr_search_packages ::
  "runtime \<Rightarrow> JSRConfig \<Rightarrow> string option \<Rightarrow> int option \<Rightarrow> int option \<Rightarrow> MCPToolResult \<times> request list" where
  "server_jsr_search_packages R config query limit skip =
     serverCatch R (lib_searchPackages R config query limit (server_searchPage limit skip))"

definition server_jsr_create_package_version ::
  "runtime \<Rightarrow> JSRConfig \<Rightarrow> string \<Rightarrow> string \<Rightarrow> string \<Rightarrow> string \<Rightarrow> string \<Rightarrow> MCPToolResult \<times> request list" where
  "server_jsr_create_package_version R config scope name version' configPath tarballPath =
     serverCatch R
       (bind (readFileAsync R tarballPath) (\<lambda>tarballData.
          lib_createPackageVersion R config scope name version' configPath tarballData))"

section \<open>Auxiliary notions for the statements\<close>

text \<open>\<open>s.endsWith(t)\<close>\<close>

definition endsWith :: "string \<Rightarrow> string \<Rightarrow> bool" where
  "endsWith s t = (length t \<le> length s \<and> drop (length s - length t) s = t)"

text \<open>The labels of the dispatcher's \<open>switch\<close>.\<close>

definition toolNames :: "string list" where
  "toolNames =
    [''jsr_search_packages'',
     ''jsr_get_package'',
     ''jsr_get_package_version'',
     ''jsr_list_package_versions'',
     ''jsr_get_scope'',
     ''jsr_list_scope_packages'',
     ''jsr_get_package_metadata'',
     ''jsr_list_packages'',
     ''jsr_get_package_dependents'',
     ''jsr_get_package_score'',
     ''jsr_get_package_dependencies'',
     ''jsr_get_current_user'',
     ''jsr_get_current_user_scopes'',
     ''jsr_get_current_user_scope_member'',
     ''jsr_get_current_user_invites'',
     ''jsr_get_user'',
     ''jsr_get_user_scopes'',
     ''jsr_list_scope_members'',
     ''jsr_list_scope_invites'',
     ''jsr_get_publishing_task'',
     ''jsr_get_stats'',
     ''jsr_create_scope'',
     ''jsr_update_scope'',
     ''jsr_delete_scope'',
     ''jsr_add_scope_member'',
     ''jsr_update_scope_member'',
     ''jsr_remove_scope_member'',
     ''jsr_delete_scope_invite'',
     ''jsr_create_package'',
     ''jsr_update_package'',
     ''jsr_delete_package'',
     ''jsr_create_package_version'',
     ''jsr_update_package_version'',
     ''jsr_accept_scope_invite'',
     ''jsr_decline_scope_invite'',
     ''jsr_create_authorization'',
     ''jsr_get_authorization_details'',
     ''jsr_approve_authorization'',
     ''jsr_deny_authorization'',
     ''jsr_exchange_authorization'']"

text \<open>
  The cases of the \<open>switch\<close> as tables: the cases that parse their arguments, each
  with its schema and the rest of its block, and the four cases that take none.
\<close>

definition parsedCases ::
  "(string \<times> zschema \<times> (runtime \<Rightarrow> JSRConfig \<Rightarrow> json \<Rightarrow> MCPToolResult outcome)) list" where
  "parsedCases =
    [(''jsr_search_packages'', SearchPackagesSchema, case_jsr_search_packages),
     (''jsr_get_package'', GetPackageSchema, case_jsr_get_package),
     (''jsr_get_package_version'', GetPackageVersionSchema, case_jsr_get_package_version),
     (''jsr_list_package_versions'', ListPackageVersionsSchema, case_jsr_list_package_versions),
     (''jsr_get_scope'', GetScopeSchema, case_jsr_get_scope),
     (''jsr_list_scope_packages'', ListScopePackagesSchema, case_jsr_list_scope_packages),
     (''jsr_get_package_metadata'', GetPackageSchema, case_jsr_get_package_metadata),
     (''jsr_list_packages'', ListPackagesSchema, case_jsr_list_packages),
     (''jsr_get_package_dependents'', GetPackageDependentsSchema, case_jsr_get_package_dependents),
     (''jsr_get_package_score'', GetPackageScoreSchema, case_jsr_get_package_score),
     (''jsr_get_package_dependencies'', GetPackageDependenciesSchema, case_jsr_get_package_dependencies),
     (''jsr_get_current_user_scope_member'', GetSelfUserScopeMemberSchema, case_jsr_get_current_user_scope_member),
     (''jsr_get_user'', GetUserSchema, case_jsr_get_user),
     (''jsr_get_user_scopes'', GetUserScopesSchema, case_jsr_get_user_scopes),
     (''jsr_list_scope_members'', ListScopeMembersSchema, case_jsr_list_scope_members),
     (''jsr_list_scope_invites'', ListScopeInvitesSchema, case_jsr_list_scope_invites),
     (''jsr_get_publishing_task'', GetPublishingTaskSchema, case_jsr_get_publishing_task),
     (''jsr_create_scope'', CreateScopeSchema, case_jsr_create_scope),
     (''jsr_update_scope'', UpdateScopeSchema, case_jsr_update_scope),
     (''jsr_delete_scope'', DeleteScopeSchema, case_jsr_delete_scope),
     (''jsr_add_scope_member'', AddScopeMemberSchema, case_jsr_add_scope_member),
     (''jsr_update_scope_member'', UpdateScopeMemberSchema, case_jsr_update_scope_member),
     (''jsr_remove_scope_member'', RemoveScopeMemberSchema, case_jsr_remove_scope_member),
     (''jsr_delete_scope_invite'', DeleteScopeInviteSchema, case_jsr_delete_scope_invite),
     (''jsr_create_package'', CreatePackageSchema, case_jsr_create_package),
     (''jsr_update_package'', UpdatePackageSchema, case_jsr_update_package),
     (''jsr_delete_package'', DeletePackageSchema, case_jsr_delete_package),
     (''jsr_create_package_version'', CreatePackageVersionSchema, case_jsr_create_package_version),
     (''jsr_update_package_version'', UpdatePackageVersionSchema, case_jsr_update_package_version),
     (''jsr_accept_scope_invite'', AcceptScopeInviteSchema, case_jsr_accept_scope_invite),
     (''jsr_decline_scope_invite'', DeclineScopeInviteSchema, case_jsr_decline_scope_invite),
     (''jsr_create_authorization'', CreateAuthorizationSchema, case_jsr_create_authorization),
     (''jsr_get_authorization_details'', GetAuthorizationDetailsSchema, case_jsr_get_authorization_details),
     (''jsr_approve_authorization'', ApproveAuthorizationSchema, case_jsr_approve_authorization),
     (''jsr_deny_authorization'', DenyAuthorizationSchema, case_jsr_deny_authorization),
     (''jsr_exchange_authorization'', ExchangeAuthorizationSchema, case_jsr_exchange_authorization)]"

definition plainCases :: "(string \<times> (runtime \<Rightarrow> JSRConfig \<Rightarrow> MCPToolResult outcome)) list" where
  "plainCases =
    [(''jsr_get_current_user'', case_jsr_get_current_user),
     (''jsr_get_current_user_scopes'', case_jsr_get_current_user_scopes),
     (''jsr_get_current_user_invites'', case_jsr_get_current_user_invites),
     (''jsr_get_stats'', case_jsr_get_stats)]"

text \<open>
  The schema with which the case of a tool parses its arguments. The four cases that
  parse nothing, and the unknown names, have none.
\<close>

definition toolSchema :: "string \<Rightarrow> zschema option" where
  "toolSchema name = map_option fst (map_of parsedCases name)"

text \<open>The keys an object schema declares.\<close>

fun declaredKeys :: "zschema \<Rightarrow> string list" where
  "declaredKeys (ZObject shape) = map fst shape"
| "declaredKeys s = []"

text \<open>The header list of a request, and whether it has an \<open>Authorization\<close> entry.\<close>

definition headersOf :: "RequestInit \<Rightarrow> (string \<times> string) list" where
  "headersOf init = (case headers init of None \<Rightarrow> [] | Some h \<Rightarrow> h)"

definition noAuthorization :: "request list \<Rightarrow> bool" where
  "noAuthorization reqs = list_all (\<lambda>req. map_of (headersOf (snd req)) ''Authorization'' = None) reqs"

text \<open>
  Sample inputs for the concrete evaluations below: a platform whose \<open>fetch\<close> answers
  every request with one given response and on which no file exists, two responses,
  and the default configuration without a token.
\<close>

definition respond :: "response \<Rightarrow> runtime" where
  "respond r =
     \<lparr> fetch = (\<lambda>url init. Inr r),
       readFile = (\<lambda>path. Inl (''No such file or directory (os error 2): readfile '' @ path)),
       stringify = (\<lambda>v. ''<json>''),
       stringify2 = (\<lambda>v. ''<json>''),
       paramsToString = (\<lambda>params. concat (map (\<lambda>(k, v). k @ ''='' @ v @ ''&'') params)),
       zodMessage = (\<lambda>issues. concat (map (\<lambda>i. case i of Issue path m \<Rightarrow> m @ ''; '') issues)),
       isUuid = (\<lambda>s. length s = 36),
       version = ''0.0.0'' \<rparr>"

definition jsonResponse :: "json \<Rightarrow> response" where
  "jsonResponse v = \<lparr> status = 200, statusText = ''OK'', bodyText = Inr ''<body>'', bodyJson = Inr v \<rparr>"

definition noContent :: response where
  "noContent = \<lparr> status = 204, statusText = ''No Content'', bodyText = Inr [],
                  bodyJson = Inl ''Unexpected end of JSON input'' \<rparr>"

definition defaultConfig :: JSRConfig where
  "defaultConfig = createJSRConfig ''https://api.jsr.io'' ''https://jsr.io'' None"

text \<open>A platform without network: every \<open>fetch\<close> is rejected.\<close>

definition unreachable :: "runtime" where
  "unreachable = (respond noContent) \<lparr> fetch := (\<lambda>url init. Inl ''error sending request'') \<rparr>"

text \<open>A computation that throws.\<close>

definition fails :: "'a outcome \<Rightarrow> bool" where
  "fails m = (\<exists>e. fst m = Inl e)"

section \<open>Properties of the connection configuration\<close>

lemma removeTrailingSlash_alt:
  "removeTrailingSlash s = (if endsWith s ''/'' then butlast s else s)"
  by (cases s rule: rev_cases) (auto simp: removeTrailingSlash_def endsWith_def)

lemma removeTrailingSlash_nonempty:
  "s \<noteq> [] \<Longrightarrow> s \<noteq> ''/'' \<Longrightarrow> removeTrailingSlash s \<noteq> []"
  by (cases s rule: rev_cases) (auto simp: removeTrailingSlash_def)

lemma removeTrailingSlash_no_slash:
  "\<not> endsWith s ''//'' \<Longrightarrow> \<not> endsWith (removeTrailingSlash s) ''/''"
  apply (cases s rule: rev_cases)
   apply (simp add: removeTrailingSlash_def endsWith_def)
  subgoal for ys y
    apply (cases ys rule: rev_cases)
     apply (auto simp: removeTrailingSlash_def endsWith_def butlast_append)
    done
  done

text \<open>
  Claim C5, as stated, fails: \<open>createJSRConfig\<close> removes one trailing slash and checks
  nothing else, so a URL ending in two slashes keeps one, and the URL \<open>/\<close> is stored
  empty.
\<close>

theorem createJSRConfig_counterexample:
  "apiUrl (createJSRConfig ''https://api.jsr.io//'' ''/'' None) = ''https://api.jsr.io/''
   \<and> registryUrl (createJSRConfig ''https://api.jsr.io//'' ''/'' None) = ''''"
  by (simp add: createJSRConfig_def removeTrailingSlash_def)

text \<open>
  Claim C5, amended: \<open>createJSRConfig\<close> stores the token as given and each URL with one
  trailing slash removed, if it has one. A URL that does not end in two slashes is stored
  without a trailing slash, a URL other than the empty string and \<open>/\<close> is stored
  non-empty, and the input \<open>("https://api.jsr.io/", "https://jsr.io/", "tok")\<close> yields
  \<open>apiUrl = "https://api.jsr.io"\<close>, \<open>registryUrl = "https://jsr.io"\<close>,
  \<open>apiToken = "tok"\<close>.
\<close>

theorem createJSRConfig_removes_one_slash:
  "apiToken (createJSRConfig a r t) = t
   \<and> apiUrl (createJSRConfig a r t) = (if endsWith a ''/'' then butlast a else a)
   \<and> registryUrl (createJSRConfig a r t) = (if endsWith r ''/'' then butlast r else r)
   \<and> (\<not> endsWith a ''//'' \<longrightarrow> \<not> endsWith (apiUrl (createJSRConfig a r t)) ''/'')
   \<and> (\<not> endsWith r ''//'' \<longrightarrow> \<not> endsWith (registryUrl (createJSRConfig a r t)) ''/'')
   \<and> (a \<noteq> [] \<and> a \<noteq> ''/'' \<longrightarrow> apiUrl (createJSRConfig a r t) \<noteq> [])
   \<and> (r \<noteq> [] \<and> r \<noteq> ''/'' \<longrightarrow> registryUrl (createJSRConfig a r t) \<noteq> [])
   \<and> createJSRConfig ''https://api.jsr.io/'' ''https://jsr.io/'' (Some ''tok'')
       = \<lparr> apiUrl = ''https://api.jsr.io'', registryUrl = ''https://jsr.io'', apiToken = Some ''tok'' \<rparr>"
proof -
  have ex: "createJSRConfig ''https://api.jsr.io/'' ''https://jsr.io/'' (Some ''tok'')
       = \<lparr> apiUrl = ''https://api.jsr.io'', registryUrl = ''https://jsr.io'', apiToken = Some ''tok'' \<rparr>"
    by (simp add: createJSRConfig_def removeTrailingSlash_def)
  show ?thesis
    using ex removeTrailingSlash_no_slash removeTrailingSlash_nonempty
    by (simp add: createJSRConfig_def removeTrailingSlash_alt)
qed

theorem createJSRConfig_removes_one_slash_witness:
  "\<not> endsWith ''https://api.jsr.io/'' ''//'' \<and> \<not> endsWith ''https://jsr.io/'' ''//''
   \<and> ''https://api.jsr.io/'' \<noteq> [] \<and> ''https://api.jsr.io/'' \<noteq> ''/''
   \<and> ''https://jsr.io/'' \<noteq> [] \<and> ''https://jsr.io/'' \<noteq> ''/''
   \<and> \<not> endsWith (apiUrl (createJSRConfig ''https://api.jsr.io/'' ''https://jsr.io/'' (Some ''tok''))) ''/''
   \<and> \<not> endsWith (registryUrl (createJSRConfig ''https://api.jsr.io/'' ''https://jsr.io/'' (Some ''tok''))) ''/''
   \<and> apiUrl (createJSRConfig ''https://api.jsr.io/'' ''https://jsr.io/'' (Some ''tok'')) \<noteq> []
   \<and> registryUrl (createJSRConfig ''https://api.jsr.io/'' ''https://jsr.io/'' (Some ''tok'')) \<noteq> []"
  using createJSRConfig_removes_one_slash
          [of "''https://api.jsr.io/''" "''https://jsr.io/''" "Some ''tok''"]
  by (simp add: endsWith_def)

section \<open>General lemmas\<close>

subsection \<open>Sequencing\<close>

lemmas client_defs = searchPackages_def getPackage_def getPackageVersion_def listPackageVersions_def getScope_def listScopePackages_def getPackageMetadata_def listPackages_def getPackageDependents_def getPackageScore_def getPackageDependencies_def getCurrentUser_def getCurrentUserScopes_def getCurrentUserScopeMember_def getCurrentUserInvites_def getUser_def getUserScopes_def listScopeMembers_def listScopeInvites_def getPublishingTask_def getStats_def createScope_def updateScope_def deleteScope_def addScopeMember_def updateScopeMember_def removeScopeMember_def deleteScopeInvite_def createPackage_def updatePackage_def deletePackage_def createPackageVersion_def updatePackageVersion_def acceptScopeInvite_def declineScopeInvite_def createAuthorization_def getAuthorizationDetails_def approveAuthorization_def denyAuthorization_def exchangeAuthorizationCode_def

lemmas case_defs = case_jsr_search_packages_def case_jsr_get_package_def case_jsr_get_package_version_def case_jsr_list_package_versions_def case_jsr_get_scope_def case_jsr_list_scope_packages_def case_jsr_get_package_metadata_def case_jsr_list_packages_def case_jsr_get_package_dependents_def case_jsr_get_package_score_def case_jsr_get_package_dependencies_def case_jsr_get_current_user_def case_jsr_get_current_user_scopes_def case_jsr_get_current_user_scope_member_def case_jsr_get_current_user_invites_def case_jsr_get_user_def case_jsr_get_user_scopes_def case_jsr_list_scope_members_def case_jsr_list_scope_invites_def case_jsr_get_publishing_task_def case_jsr_get_stats_def case_jsr_create_scope_def case_jsr_update_scope_def case_jsr_delete_scope_def case_jsr_add_scope_member_def case_jsr_update_scope_member_def case_jsr_remove_scope_member_def case_jsr_delete_scope_invite_def case_jsr_create_package_def case_jsr_update_package_def case_jsr_delete_package_def case_jsr_create_package_version_def case_jsr_update_package_version_def case_jsr_accept_scope_invite_def case_jsr_decline_scope_invite_def case_jsr_create_authorization_def case_jsr_get_authorization_details_def case_jsr_approve_authorization_def case_jsr_deny_authorization_def case_jsr_exchange_authorization_def

lemma snd_bind: "snd (bind m f) = snd m @ (case fst m of Inl e \<Rightarrow> [] | Inr x \<Rightarrow> snd (f x))"
  by (cases m; cases "fst m") (auto split: prod.splits)

lemma bind_throw [simp]: "bind (throw e) f = throw e"
  by (simp add: throw_def)

lemma bind_ret [simp]: "bind (ret x) f = f x"
  by (simp add: ret_def split: prod.splits)

lemma fst_bind: "fst (bind m f) = (case fst m of Inl e \<Rightarrow> Inl e | Inr x \<Rightarrow> fst (f x))"
  by (cases m; cases "fst m") (auto split: prod.splits)

lemma fst_bind_Inl: "fst m = Inl e \<Longrightarrow> fst (bind m f) = Inl e"
  by (simp add: fst_bind)

lemma fails_bind: "fails m \<Longrightarrow> fails (bind m f)"
  by (auto simp: fails_def fst_bind_Inl)

lemma fails_bind2: "(\<And>x. fails (f x)) \<Longrightarrow> fails (bind m f)"
  by (simp add: fails_def fst_bind split: sum.splits)

lemma fails_discard: "fails m \<Longrightarrow> fails (discard m)"
  by (simp add: discard_def fails_bind)

subsection \<open>The dispatcher as a table\<close>

lemma handleJSRTool_try_table:
  "handleJSRTool_try R name args config =
     (case map_of parsedCases name of
        Some (s, k) \<Rightarrow> bind (parse R s args) (k R config)
      | None \<Rightarrow>
          (case map_of plainCases name of
             Some k \<Rightarrow> k R config
           | None \<Rightarrow> throw (Error (''Unknown JSR tool: '' @ name))))"
  unfolding handleJSRTool_try_def parsedCases_def plainCases_def
  by simp

lemma handleJSRTool_try_cases:
  assumes "\<And>n s k. (n, s, k) \<in> set parsedCases \<Longrightarrow> P (bind (parse R s args) (k R config))"
      and "\<And>n k. (n, k) \<in> set plainCases \<Longrightarrow> P (k R config)"
      and "P (throw (Error (''Unknown JSR tool: '' @ name)))"
  shows "P (handleJSRTool_try R name args config)"
proof (cases "map_of parsedCases name")
  case (Some sk)
  obtain s k where sk: "sk = (s, k)" by (cases sk)
  have "(name, s, k) \<in> set parsedCases"
    using Some sk by (auto dest: map_of_SomeD)
  then show ?thesis
    using assms(1) by (simp add: handleJSRTool_try_table Some sk)
next
  case None
  show ?thesis
  proof (cases "map_of plainCases name")
    case (Some k)
    then have "(name, k) \<in> set plainCases"
      by (auto dest: map_of_SomeD)
    then show ?thesis
      using assms(2) by (simp add: handleJSRTool_try_table None Some)
  next
    case None': None
    show ?thesis
      using assms(3) by (simp add: handleJSRTool_try_table None None')
  qed
qed

lemma toolSchema_object:
  assumes "toolSchema name = Some s"
  shows "\<exists>shape. s = ZObject shape"
  using assms unfolding toolSchema_def parsedCases_def
  by (auto split: if_splits simp: SearchPackagesSchema_def GetPackageSchema_def GetPackageVersionSchema_def
    ListPackageVersionsSchema_def GetScopeSchema_def ListScopePackagesSchema_def ListPackagesSchema_def
    GetPackageDependentsSchema_def GetPackageScoreSchema_def GetPackageDependenciesSchema_def
    GetSelfUserScopeMemberSchema_def GetUserSchema_def GetUserScopesSchema_def ListScopeMembersSchema_def
    ListScopeInvitesSchema_def GetPublishingTaskSchema_def CreateScopeSchema_def UpdateScopeSchema_def
    DeleteScopeSchema_def AddScopeMemberSchema_def UpdateScopeMemberSchema_def RemoveScopeMemberSchema_def
    DeleteScopeInviteSchema_def CreatePackageSchema_def UpdatePackageSchema_def DeletePackageSchema_def
    CreatePackageVersionSchema_def UpdatePackageVersionSchema_def AcceptScopeInviteSchema_def
    DeclineScopeInviteSchema_def CreateAuthorizationSchema_def GetAuthorizationDetailsSchema_def
    ApproveAuthorizationSchema_def DenyAuthorizationSchema_def ExchangeAuthorizationSchema_def
    PaginationSchema_def)

lemma handleJSRTool_try_parses:
  assumes "toolSchema name = Some s"
  shows "\<exists>k. handleJSRTool_try R name args config = bind (parse R s args) (k R config)"
  using assms by (auto simp: toolSchema_def handleJSRTool_try_table split: option.splits)

lemma handleJSRTool_try_no_schema:
  assumes "toolSchema name = None"
  shows "handleJSRTool_try R name args config = handleJSRTool_try R name args' config"
  using assms by (auto simp: toolSchema_def handleJSRTool_try_table split: option.splits)

lemma handleJSRTool_try_by_schema:
  assumes "toolSchema name = Some s" and "parse R s args' = parse R s args"
  shows "handleJSRTool_try R name args' config = handleJSRTool_try R name args config"
  using assms by (auto simp: toolSchema_def handleJSRTool_try_table split: option.splits)

lemma map_of_plainCases_toolNames:
  "name \<notin> set toolNames \<Longrightarrow> map_of plainCases name = None \<and> map_of parsedCases name = None"
  unfolding toolNames_def plainCases_def parsedCases_def by simp

lemma handleJSRTool_try_unknown:
  assumes "name \<notin> set toolNames"
  shows "handleJSRTool_try R name args config = throw (Error (''Unknown JSR tool: '' @ name))"
  using map_of_plainCases_toolNames [OF assms] by (simp add: handleJSRTool_try_table)

lemma handleJSRTool_error:
  "fst (handleJSRTool_try R name args config) = Inl error \<Longrightarrow>
   fst (handleJSRTool R name args config) = errorResult R error"
  by (cases "handleJSRTool_try R name args config") (simp add: handleJSRTool_def)

lemma handleJSRTool_success:
  "fst (handleJSRTool_try R name args config) = Inr result \<Longrightarrow>
   fst (handleJSRTool R name args config) = result"
  by (cases "handleJSRTool_try R name args config") (simp add: handleJSRTool_def)

lemma handleJSRTool_requests:
  "snd (handleJSRTool R name args config) = snd (handleJSRTool_try R name args config)"
  by (cases "handleJSRTool_try R name args config"; cases "fst (handleJSRTool_try R name args config)")
     (simp_all add: handleJSRTool_def)

lemma handleJSRTool_unknown:
  "name \<notin> set toolNames \<Longrightarrow>
   handleJSRTool R name args config = (errorResult R (Error (''Unknown JSR tool: '' @ name)), [])"
  by (simp add: handleJSRTool_def handleJSRTool_try_unknown throw_def)

lemma handleJSRTool_invalid:
  assumes "toolSchema name = Some s" and "parseAt R s [] args = Inl issues"
  shows "handleJSRTool R name args config = (errorResult R (ZodError issues), [])"
proof -
  obtain k where "handleJSRTool_try R name args config = bind (parse R s args) (k R config)"
    using handleJSRTool_try_parses [OF assms(1)] by blast
  then show ?thesis
    using assms(2) by (simp add: handleJSRTool_def parse_def throw_def)
qed

lemma handleJSRTool_create_package_version_unreadable:
  assumes "parseAt R CreatePackageVersionSchema [] args = Inr a"
      and "readFile R (asString (getField a ''tarballPath'')) = Inl m"
  shows "handleJSRTool R ''jsr_create_package_version'' args config = (errorResult R (Error m), [])"
proof -
  have "handleJSRTool_try R ''jsr_create_package_version'' args config
          = bind (parse R CreatePackageVersionSchema args) (case_jsr_create_package_version R config)"
    by (simp add: handleJSRTool_try_table parsedCases_def)
  then show ?thesis
    using assms
    by (simp add: handleJSRTool_def parse_def case_jsr_create_package_version_def readFileAsync_def
          throw_def)
qed

lemma CreatePackageVersionSchema_accepts_any_path:
  assumes "matchesName scope" and "matchesName name"
  shows "parseAt R CreatePackageVersionSchema []
           (JObj [(''scope'', JStr scope), (''name'', JStr name), (''version'', JStr v),
                  (''configPath'', JStr configPath), (''tarballPath'', JStr tarballPath)])
         = Inr (JObj [(''scope'', JStr scope), (''name'', JStr name), (''version'', JStr v),
                  (''configPath'', JStr configPath), (''tarballPath'', JStr tarballPath)])"
  using assms
  by (simp add: CreatePackageVersionSchema_def GetPackageVersionSchema_def GetPackageSchema_def
        ScopeNameSchema_def PackageNameSchema_def VersionSchema_def spread_def List.map_filter_def)

subsection \<open>Parsing objects\<close>

lemma parseShape_agree:
  "\<forall>k \<in> fst ` set shape. map_of kvs' k = map_of kvs k \<Longrightarrow>
   parseShape R shape path kvs' = parseShape R shape path kvs"
  by (induction shape) auto

lemma parseShape_keys:
  "fst ` set (snd (parseShape R shape path kvs)) \<subseteq> fst ` set shape"
  by (induction shape) (force simp: Let_def split: if_splits)+

lemma parseAt_object_agree:
  "\<forall>k \<in> set (declaredKeys (ZObject shape)). map_of kvs' k = map_of kvs k \<Longrightarrow>
   parseAt R (ZObject shape) path (JObj kvs') = parseAt R (ZObject shape) path (JObj kvs)"
  using parseShape_agree [of shape kvs' kvs R path] by simp

lemma parseAt_object_keys:
  assumes "parseAt R (ZObject shape) path v = Inr w"
  shows "\<exists>out. w = JObj out \<and> set (map fst out) \<subseteq> set (declaredKeys (ZObject shape))"
proof (cases v)
  case (JObj kvs)
  obtain issues out where ps: "parseShape R shape path kvs = (issues, out)"
    by (cases "parseShape R shape path kvs")
  have "fst ` set out \<subseteq> fst ` set shape"
    using parseShape_keys [of R shape path kvs] ps by simp
  moreover have "w = JObj out"
    using assms JObj ps by (cases issues) auto
  ultimately show ?thesis by auto
qed (use assms in \<open>auto simp: invalidType_def\<close>)

subsection \<open>Request headers and the token\<close>

lemma apiHeaders_empty_token:
  "apiHeaders ua (config\<lparr> apiToken := Some [] \<rparr>) options
     = apiHeaders ua (config\<lparr> apiToken := None \<rparr>) options"
  by (simp add: apiHeaders_def)

lemma makeApiRequest_empty_token:
  "makeApiRequest R (config\<lparr> apiToken := Some [] \<rparr>) endpoint options
     = makeApiRequest R (config\<lparr> apiToken := None \<rparr>) endpoint options"
  by (simp add: makeApiRequest_def apiHeaders_empty_token)

lemma lib_makeApiRequest_empty_token:
  "lib_makeApiRequest R (config\<lparr> apiToken := Some [] \<rparr>) endpoint options
     = lib_makeApiRequest R (config\<lparr> apiToken := None \<rparr>) endpoint options"
  by (simp add: lib_makeApiRequest_def apiHeaders_empty_token)

lemma makeRegistryRequest_empty_token:
  "makeRegistryRequest R (config\<lparr> apiToken := Some [] \<rparr>) endpoint options
     = makeRegistryRequest R (config\<lparr> apiToken := None \<rparr>) endpoint options"
  by (simp add: makeRegistryRequest_def)

lemma parsedCases_empty_token:
  "\<forall>(n, s, k) \<in> set parsedCases.
     k R (config\<lparr> apiToken := Some [] \<rparr>) = k R (config\<lparr> apiToken := None \<rparr>)"
  unfolding parsedCases_def
  by (simp add: fun_eq_iff case_defs client_defs makeApiRequest_empty_token
        makeRegistryRequest_empty_token)

lemma plainCases_empty_token:
  "\<forall>(n, k) \<in> set plainCases.
     k R (config\<lparr> apiToken := Some [] \<rparr>) = k R (config\<lparr> apiToken := None \<rparr>)"
  unfolding plainCases_def
  by (simp add: fun_eq_iff case_defs client_defs makeApiRequest_empty_token
        makeRegistryRequest_empty_token)

lemma handleJSRTool_try_empty_token:
  "handleJSRTool_try R name args (config\<lparr> apiToken := Some [] \<rparr>)
     = handleJSRTool_try R name args (config\<lparr> apiToken := None \<rparr>)"
proof (cases "map_of parsedCases name")
  case (Some sk)
  obtain s k where sk: "sk = (s, k)" by (cases sk)
  have "(name, s, k) \<in> set parsedCases"
    using Some sk by (auto dest: map_of_SomeD)
  then have "k R (config\<lparr> apiToken := Some [] \<rparr>) = k R (config\<lparr> apiToken := None \<rparr>)"
    using parsedCases_empty_token [of R config] by auto
  then show ?thesis
    by (simp add: handleJSRTool_try_table Some sk)
next
  case None
  show ?thesis
  proof (cases "map_of plainCases name")
    case (Some k)
    then have "(name, k) \<in> set plainCases"
      by (auto dest: map_of_SomeD)
    then have "k R (config\<lparr> apiToken := Some [] \<rparr>) = k R (config\<lparr> apiToken := None \<rparr>)"
      using plainCases_empty_token [of R config] by auto
    then show ?thesis
      by (simp add: handleJSRTool_try_table None Some)
  next
    case None': None
    show ?thesis
      by (simp add: handleJSRTool_try_table None None')
  qed
qed

lemma keys_spread: "fst ` set (spread base extra) = fst ` set base \<union> fst ` set extra"
  unfolding spread_def
  by (induction extra arbitrary: base) (auto simp: dom_update split: prod.splits)

lemma map_of_None_iff: "map_of xs k = None \<longleftrightarrow> k \<notin> fst ` set xs"
  by (simp add: map_of_eq_None_iff)

lemma apiHeaders_no_token:
  "\<not> truthyString (apiToken config) \<Longrightarrow>
   map_of (headersOf options) ''Authorization'' = None \<Longrightarrow>
   map_of (apiHeaders ua config options) ''Authorization'' = None"
  by (simp add: apiHeaders_def keys_spread map_of_None_iff headersOf_def)

lemma noAuth_makeApiRequest:
  "\<not> truthyString (apiToken config) \<Longrightarrow>
   map_of (headersOf options) ''Authorization'' = None \<Longrightarrow>
   noAuthorization (snd (makeApiRequest R config endpoint options))"
  by (simp add: makeApiRequest_def noAuthorization_def Let_def apiHeaders_no_token
        headersOf_def [of "options\<lparr>headers := h\<rparr>" for h])

lemma noAuth_lib_makeApiRequest:
  "\<not> truthyString (apiToken config) \<Longrightarrow>
   map_of (headersOf options) ''Authorization'' = None \<Longrightarrow>
   noAuthorization (snd (lib_makeApiRequest R config endpoint options))"
  by (simp add: lib_makeApiRequest_def noAuthorization_def Let_def apiHeaders_no_token
        headersOf_def [of "options\<lparr>headers := h\<rparr>" for h])

lemma noAuth_makeRegistryRequest:
  "map_of (headersOf options) ''Authorization'' = None \<Longrightarrow>
   noAuthorization (snd (makeRegistryRequest R config endpoint options))"
  by (simp add: makeRegistryRequest_def noAuthorization_def Let_def headersOf_def
        registryHeaders_def keys_spread map_of_None_iff)

lemma noAuth_bind:
  "noAuthorization (snd m) \<Longrightarrow> (\<And>x. noAuthorization (snd (f x))) \<Longrightarrow>
   noAuthorization (snd (bind m f))"
  by (simp add: snd_bind noAuthorization_def split: sum.splits)

lemma noAuth_discard:
  "noAuthorization (snd m) \<Longrightarrow> noAuthorization (snd (discard m))"
  unfolding discard_def by (rule noAuth_bind) (simp_all add: noAuthorization_def ret_def)

lemma noAuth_simple:
  "noAuthorization (snd (ret x))" "noAuthorization (snd (throw e))"
  "noAuthorization (snd (lift r))" "noAuthorization (snd (parse R s args))"
  "noAuthorization (snd (readFileAsync R path))" "noAuthorization (snd (textResult t))"
  "noAuthorization (snd (jsonResult R v))"
  by (simp_all add: noAuthorization_def ret_def throw_def lift_def parse_def readFileAsync_def
        textResult_def jsonResult_def split: sum.splits)

lemma noAuth_options:
  "map_of (headersOf noOptions) ''Authorization'' = None"
  "map_of (headersOf (withMethod m)) ''Authorization'' = None"
  "map_of (headersOf (withJsonBody R m v)) ''Authorization'' = None"
  "map_of (headersOf \<lparr> httpMethod = mm, headers = Some [(''Content-Type'', ct)], body = b \<rparr>)
     ''Authorization'' = None"
  by (simp_all add: headersOf_def noOptions_def withMethod_def withJsonBody_def)

lemmas noAuth_rules = noAuth_bind noAuth_discard noAuth_makeApiRequest noAuth_makeRegistryRequest noAuth_simple
  noAuth_options

lemma parsedCases_noAuth:
  assumes "\<not> truthyString (apiToken config)"
  shows "\<forall>(n, s, k) \<in> set parsedCases. \<forall>a. noAuthorization (snd (k R config a))"
  unfolding parsedCases_def
  using assms
  by (simp add: case_defs client_defs Let_def noAuth_rules)

lemma plainCases_noAuth:
  assumes "\<not> truthyString (apiToken config)"
  shows "\<forall>(n, k) \<in> set plainCases. noAuthorization (snd (k R config))"
  unfolding plainCases_def
  using assms
  by (simp add: case_defs client_defs Let_def noAuth_rules)

lemma noAuth_handleJSRTool_try:
  assumes "\<not> truthyString (apiToken config)"
  shows "noAuthorization (snd (handleJSRTool_try R name args config))"
proof (rule handleJSRTool_try_cases)
  fix n s k assume "(n, s, k) \<in> set parsedCases"
  then have "\<forall>a. noAuthorization (snd (k R config a))"
    using parsedCases_noAuth [OF assms, of R] by auto
  then show "noAuthorization (snd (bind (parse R s args) (k R config)))"
    by (simp add: noAuth_rules)
next
  fix n k assume "(n, k) \<in> set plainCases"
  then show "noAuthorization (snd (k R config))"
    using plainCases_noAuth [OF assms, of R] by auto
next
  show "noAuthorization (snd (throw (Error (''Unknown JSR tool: '' @ name))))"
    by (simp add: noAuth_rules)
qed

subsection \<open>Failing requests\<close>

lemma makeApiRequest_fetch_fails:
  "(\<And>url init. fetch R url init = Inl m) \<Longrightarrow>
   fst (makeApiRequest R config endpoint options) = Inl (Error (''JSR API request failed: '' @ m))"
  by (simp add: makeApiRequest_def apiTry_def apiCatch_def Let_def)

lemma makeRegistryRequest_fetch_fails:
  "(\<And>url init. fetch R url init = Inl m) \<Longrightarrow>
   fst (makeRegistryRequest R config endpoint options)
     = Inl (Error (''JSR Registry request failed: '' @ m))"
  by (simp add: makeRegistryRequest_def registryTry_def registryCatch_def Let_def)

lemma fails_requests:
  assumes "\<And>url init. fetch R url init = Inl m"
  shows "fails (makeApiRequest R config endpoint options)"
    and "fails (makeRegistryRequest R config endpoint options)"
  using makeApiRequest_fetch_fails [of R m] makeRegistryRequest_fetch_fails [of R m] assms
  by (simp_all add: fails_def)

lemma parsedCases_fetch_fails:
  assumes "\<And>url init. fetch R url init = Inl m"
  shows "\<forall>(n, s, k) \<in> set parsedCases. \<forall>a. fails (k R config a)"
  unfolding parsedCases_def
  by (simp add: case_defs client_defs Let_def fails_bind fails_bind2 fails_discard
        fails_requests [of R m, OF assms])

lemma plainCases_fetch_fails:
  assumes "\<And>url init. fetch R url init = Inl m"
  shows "\<forall>(n, k) \<in> set plainCases. fails (k R config)"
  unfolding plainCases_def
  by (simp add: case_defs client_defs Let_def fails_bind fails_bind2 fails_discard
        fails_requests [of R m, OF assms])

lemma handleJSRTool_try_fetch_fails:
  assumes "\<And>url init. fetch R url init = Inl m"
  shows "fails (handleJSRTool_try R name args config)"
proof (rule handleJSRTool_try_cases)
  fix n s k assume "(n, s, k) \<in> set parsedCases"
  then have "\<forall>a. fails (k R config a)"
    using parsedCases_fetch_fails [of R m config] assms by auto
  then show "fails (bind (parse R s args) (k R config))"
    by (simp add: fails_bind2)
next
  fix n k assume "(n, k) \<in> set plainCases"
  then show "fails (k R config)"
    using plainCases_fetch_fails [of R m config] assms by auto
next
  show "fails (throw (Error (''Unknown JSR tool: '' @ name)))"
    by (simp add: fails_def throw_def)
qed

section \<open>The dispatcher boundary\<close>

text \<open>
  Claim C1: every call of \<open>handleJSRTool\<close> returns a result envelope. Whatever the
  \<open>try\<close> block throws is rendered as an envelope with \<open>isError = true\<close> whose single
  text part is \<open>Error: \<close> followed by the message of the failure; otherwise the envelope
  of the block is returned. In particular: a name that the \<open>switch\<close> does not know gives
  the error envelope for \<open>Unknown JSR tool\<close>; arguments that the schema of the tool rejects
  give the error envelope of the validation message; a tarball that cannot be read gives
  the error envelope of the read failure; and when every \<open>fetch\<close> is rejected, every call
  returns an error envelope.
\<close>

theorem handleJSRTool_catches_every_failure:
  "(case fst (handleJSRTool_try R name args config) of
      Inr result \<Rightarrow> fst (handleJSRTool R name args config) = result
    | Inl error \<Rightarrow>
        fst (handleJSRTool R name args config)
          = \<lparr> content = [\<lparr> ptype = ''text'', ptext = ''Error: '' @ message R error \<rparr>],
              isError = Some True \<rparr>)
   \<and> snd (handleJSRTool R name args config) = snd (handleJSRTool_try R name args config)
   \<and> (name \<notin> set toolNames \<longrightarrow>
        handleJSRTool R name args config
          = (\<lparr> content = [\<lparr> ptype = ''text'', ptext = ''Error: Unknown JSR tool: '' @ name \<rparr>],
               isError = Some True \<rparr>, []))
   \<and> (toolSchema name = Some s \<and> parseAt R s [] args = Inl issues \<longrightarrow>
        handleJSRTool R name args config
          = (\<lparr> content = [\<lparr> ptype = ''text'', ptext = ''Error: '' @ zodMessage R issues \<rparr>],
               isError = Some True \<rparr>, []))
   \<and> (parseAt R CreatePackageVersionSchema [] args = Inr a
        \<and> readFile R (asString (getField a ''tarballPath'')) = Inl m' \<longrightarrow>
        handleJSRTool R ''jsr_create_package_version'' args config
          = (\<lparr> content = [\<lparr> ptype = ''text'', ptext = ''Error: '' @ m' \<rparr>],
               isError = Some True \<rparr>, []))
   \<and> ((\<forall>url init. fetch R url init = Inl m) \<longrightarrow>
        isError (fst (handleJSRTool R name args config)) = Some True)"
proof -
  have "(\<forall>url init. fetch R url init = Inl m) \<longrightarrow>
        isError (fst (handleJSRTool R name args config)) = Some True"
  proof
    assume "\<forall>url init. fetch R url init = Inl m"
    then have "fails (handleJSRTool_try R name args config)"
      using handleJSRTool_try_fetch_fails [of R m name args config] by simp
    then show "isError (fst (handleJSRTool R name args config)) = Some True"
      by (auto simp: fails_def handleJSRTool_error errorResult_def)
  qed
  then show ?thesis
    using handleJSRTool_unknown [of name R args config]
      handleJSRTool_invalid [of name s R args issues config]
      handleJSRTool_create_package_version_unreadable [of R args a m' config]
    by (auto simp: handleJSRTool_requests handleJSRTool_error handleJSRTool_success errorResult_def
          split: sum.splits)
qed

theorem handleJSRTool_catches_every_failure_witness:
  "''jsr_publish'' \<notin> set toolNames
   \<and> handleJSRTool unreachable ''jsr_publish'' JNull defaultConfig
       = (\<lparr> content = [\<lparr> ptype = ''text'', ptext = ''Error: Unknown JSR tool: jsr_publish'' \<rparr>],
            isError = Some True \<rparr>, [])
   \<and> toolSchema ''jsr_get_scope'' = Some GetScopeSchema
   \<and> parseAt unreachable GetScopeSchema [] (JObj []) = Inl [Issue [''scope''] ''Required'']
   \<and> handleJSRTool unreachable ''jsr_get_scope'' (JObj []) defaultConfig
       = (\<lparr> content = [\<lparr> ptype = ''text'', ptext = ''Error: Required; '' \<rparr>],
            isError = Some True \<rparr>, [])
   \<and> parseAt unreachable CreatePackageVersionSchema []
         (JObj [(''scope'', JStr ''std''), (''name'', JStr ''fs''), (''version'', JStr ''1.0.0''),
                (''configPath'', JStr ''/deno.json''), (''tarballPath'', JStr ''/tmp/missing.tgz'')])
       = Inr (JObj [(''scope'', JStr ''std''), (''name'', JStr ''fs''), (''version'', JStr ''1.0.0''),
                (''configPath'', JStr ''/deno.json''), (''tarballPath'', JStr ''/tmp/missing.tgz'')])
   \<and> readFile unreachable ''/tmp/missing.tgz''
       = Inl ''No such file or directory (os error 2): readfile /tmp/missing.tgz''
   \<and> handleJSRTool unreachable ''jsr_create_package_version''
         (JObj [(''scope'', JStr ''std''), (''name'', JStr ''fs''), (''version'', JStr ''1.0.0''),
                (''configPath'', JStr ''/deno.json''), (''tarballPath'', JStr ''/tmp/missing.tgz'')])
         defaultConfig
       = (\<lparr> content = [\<lparr> ptype = ''text'',
              ptext = ''Error: No such file or directory (os error 2): readfile /tmp/missing.tgz'' \<rparr>],
            isError = Some True \<rparr>, [])
   \<and> (\<forall>url init. fetch unreachable url init = Inl ''error sending request'')
   \<and> isError (fst (handleJSRTool unreachable ''jsr_get_stats'' JNull defaultConfig)) = Some True"
proof -
  let ?args = "JObj [(''scope'', JStr ''std''), (''name'', JStr ''fs''), (''version'', JStr ''1.0.0''),
                (''configPath'', JStr ''/deno.json''), (''tarballPath'', JStr ''/tmp/missing.tgz'')]"
  have n: "''jsr_publish'' \<notin> set toolNames"
    by (simp add: toolNames_def)
  have s: "toolSchema ''jsr_get_scope'' = Some GetScopeSchema"
    by (simp add: toolSchema_def parsedCases_def)
  have p: "parseAt unreachable GetScopeSchema [] (JObj []) = Inl [Issue [''scope''] ''Required'']"
    by (simp add: GetScopeSchema_def ScopeNameSchema_def invalidType_def)
  have z: "zodMessage unreachable [Issue [''scope''] ''Required''] = ''Required; ''"
    by (simp add: unreachable_def respond_def)
  have names: "matchesName ''std''" "matchesName ''fs''"
    by (simp_all add: matchesName_def isLower_def isLowerAlnum_def)
  have v: "parseAt unreachable CreatePackageVersionSchema [] ?args = Inr ?args"
    using CreatePackageVersionSchema_accepts_any_path [OF names] by simp
  have r: "readFile unreachable ''/tmp/missing.tgz''
       = Inl ''No such file or directory (os error 2): readfile /tmp/missing.tgz''"
    by (simp add: unreachable_def respond_def)
  have f: "\<forall>url init. fetch unreachable url init = Inl ''error sending request''"
    by (simp add: unreachable_def respond_def)
  have c1: "handleJSRTool unreachable ''jsr_publish'' JNull defaultConfig
       = (\<lparr> content = [\<lparr> ptype = ''text'', ptext = ''Error: Unknown JSR tool: jsr_publish'' \<rparr>],
            isError = Some True \<rparr>, [])"
    using n handleJSRTool_catches_every_failure
      [where R = unreachable and name = "''jsr_publish''" and args = JNull and config = defaultConfig]
    by simp
  have c2: "handleJSRTool unreachable ''jsr_get_scope'' (JObj []) defaultConfig
       = (\<lparr> content = [\<lparr> ptype = ''text'', ptext = ''Error: Required; '' \<rparr>],
            isError = Some True \<rparr>, [])"
    using s p z handleJSRTool_catches_every_failure
      [where R = unreachable and name = "''jsr_get_scope''" and args = "JObj []"
         and config = defaultConfig and s = GetScopeSchema and issues = "[Issue [''scope''] ''Required'']"]
    by simp
  have c3: "handleJSRTool unreachable ''jsr_create_package_version'' ?args defaultConfig
       = (\<lparr> content = [\<lparr> ptype = ''text'',
              ptext = ''Error: No such file or directory (os error 2): readfile /tmp/missing.tgz'' \<rparr>],
            isError = Some True \<rparr>, [])"
    using v r handleJSRTool_catches_every_failure
      [where R = unreachable and args = ?args and config = defaultConfig and a = ?args
         and m' = "''No such file or directory (os error 2): readfile /tmp/missing.tgz''"]
    by simp
  have c4: "isError (fst (handleJSRTool unreachable ''jsr_get_stats'' JNull defaultConfig)) = Some True"
    using f handleJSRTool_catches_every_failure
      [where R = unreachable and name = "''jsr_get_stats''" and args = JNull and config = defaultConfig
         and m = "''error sending request''"]
    by simp
  show ?thesis
    using n s p v r f c1 c2 c3 c4 by blast
qed

section \<open>Validation before any request\<close>



section \<open>Undeclared argument keys\<close>

text \<open>
  Claim C10: for every tool whose case parses its arguments, keys that the schema does not
  declare are accepted and dropped. Two argument objects that agree on the declared keys
  parse alike, a parsed value has declared keys only, and the dispatcher returns the same
  envelope and issues the same requests for both. The four cases that parse nothing
  ignore their arguments altogether.
\<close>

theorem undeclared_keys_are_stripped:
  "(toolSchema name = Some s \<and> (\<forall>k \<in> set (declaredKeys s). map_of kvs' k = map_of kvs k) \<longrightarrow>
      parse R s (JObj kvs') = parse R s (JObj kvs)
      \<and> (\<forall>v. fst (parse R s (JObj kvs')) = Inr v \<longrightarrow>
            (\<exists>out. v = JObj out \<and> set (map fst out) \<subseteq> set (declaredKeys s)))
      \<and> handleJSRTool R name (JObj kvs') config = handleJSRTool R name (JObj kvs) config)
   \<and> (toolSchema name = None \<longrightarrow>
        handleJSRTool R name args config = handleJSRTool R name args' config)"
proof (rule conjI; rule impI)
  assume "toolSchema name = None"
  then show "handleJSRTool R name args config = handleJSRTool R name args' config"
    using handleJSRTool_try_no_schema [of name R args config args']
    by (simp add: handleJSRTool_def)
next
  assume h: "toolSchema name = Some s \<and> (\<forall>k \<in> set (declaredKeys s). map_of kvs' k = map_of kvs k)"
  then have schema: "toolSchema name = Some s"
    and agree: "\<forall>k \<in> set (declaredKeys s). map_of kvs' k = map_of kvs k"
    by simp_all
  obtain shape where s: "s = ZObject shape"
    using toolSchema_object [OF schema] by blast
  have same: "parse R s (JObj kvs') = parse R s (JObj kvs)"
    using parseAt_object_agree [of shape kvs' kvs R "[]"] agree by (simp add: parse_def s)
  have keys: "\<exists>out. v = JObj out \<and> set (map fst out) \<subseteq> set (declaredKeys s)"
    if "fst (parse R s (JObj kvs')) = Inr v" for v
  proof -
    have "parseAt R (ZObject shape) [] (JObj kvs') = Inr v"
      using that by (auto simp: parse_def s throw_def ret_def split: sum.splits)
    then show ?thesis
      using parseAt_object_keys [of R shape "[]" "JObj kvs'" v] by (simp add: s)
  qed
  have "handleJSRTool_try R name (JObj kvs') config = handleJSRTool_try R name (JObj kvs) config"
    using handleJSRTool_try_by_schema [OF schema same] .
  then have "handleJSRTool R name (JObj kvs') config = handleJSRTool R name (JObj kvs) config"
    by (simp add: handleJSRTool_def)
  with same keys show "parse R s (JObj kvs') = parse R s (JObj kvs)
      \<and> (\<forall>v. fst (parse R s (JObj kvs')) = Inr v \<longrightarrow>
            (\<exists>out. v = JObj out \<and> set (map fst out) \<subseteq> set (declaredKeys s)))
      \<and> handleJSRTool R name (JObj kvs') config = handleJSRTool R name (JObj kvs) config"
    by blast
qed

theorem undeclared_keys_are_stripped_witness:
  "toolSchema ''jsr_get_package'' = Some GetPackageSchema
   \<and> declaredKeys GetPackageSchema = [''scope'', ''name'']
   \<and> map_of [(''scope'', JStr ''std''), (''name'', JStr ''fs''), (''registry'', JStr ''npm'')] ''scope''
       = map_of [(''scope'', JStr ''std''), (''name'', JStr ''fs'')] ''scope''
   \<and> map_of [(''scope'', JStr ''std''), (''name'', JStr ''fs''), (''registry'', JStr ''npm'')] ''name''
       = map_of [(''scope'', JStr ''std''), (''name'', JStr ''fs'')] ''name''
   \<and> fst (parse (respond (jsonResponse JNull)) GetPackageSchema
         (JObj [(''scope'', JStr ''std''), (''name'', JStr ''fs''), (''registry'', JStr ''npm'')]))
       = Inr (JObj [(''scope'', JStr ''std''), (''name'', JStr ''fs'')])
   \<and> handleJSRTool (respond (jsonResponse JNull)) ''jsr_get_package''
         (JObj [(''scope'', JStr ''std''), (''name'', JStr ''fs''), (''registry'', JStr ''npm'')])
         defaultConfig
       = handleJSRTool (respond (jsonResponse JNull)) ''jsr_get_package''
           (JObj [(''scope'', JStr ''std''), (''name'', JStr ''fs'')]) defaultConfig
   \<and> toolSchema ''jsr_get_stats'' = None
   \<and> handleJSRTool (respond (jsonResponse JNull)) ''jsr_get_stats''
         (JObj [(''verbose'', JBool True)]) defaultConfig
       = handleJSRTool (respond (jsonResponse JNull)) ''jsr_get_stats'' (JObj []) defaultConfig"
proof -
  let ?kvs' = "[(''scope'', JStr ''std''), (''name'', JStr ''fs''), (''registry'', JStr ''npm'')]"
  let ?kvs = "[(''scope'', JStr ''std''), (''name'', JStr ''fs'')]"
  have s: "toolSchema ''jsr_get_package'' = Some GetPackageSchema"
    by (simp add: toolSchema_def parsedCases_def)
  have d: "declaredKeys GetPackageSchema = [''scope'', ''name'']"
    by (simp add: GetPackageSchema_def)
  have a: "\<forall>k \<in> set (declaredKeys GetPackageSchema). map_of ?kvs' k = map_of ?kvs k"
    by (simp add: d)
  have p: "fst (parse (respond (jsonResponse JNull)) GetPackageSchema (JObj ?kvs')) = Inr (JObj ?kvs)"
    by (simp add: parse_def ret_def GetPackageSchema_def ScopeNameSchema_def PackageNameSchema_def
          List.map_filter_def matchesName_def isLower_def isLowerAlnum_def)
  have n: "toolSchema ''jsr_get_stats'' = None"
    by (simp add: toolSchema_def parsedCases_def)
  have c1: "handleJSRTool (respond (jsonResponse JNull)) ''jsr_get_package'' (JObj ?kvs') defaultConfig
       = handleJSRTool (respond (jsonResponse JNull)) ''jsr_get_package'' (JObj ?kvs) defaultConfig"
    using s a undeclared_keys_are_stripped [where name = "''jsr_get_package''" and s = GetPackageSchema
      and kvs' = ?kvs' and kvs = ?kvs and R = "respond (jsonResponse JNull)" and config = defaultConfig]
    by blast
  have c2: "handleJSRTool (respond (jsonResponse JNull)) ''jsr_get_stats''
         (JObj [(''verbose'', JBool True)]) defaultConfig
       = handleJSRTool (respond (jsonResponse JNull)) ''jsr_get_stats'' (JObj []) defaultConfig"
    using n undeclared_keys_are_stripped [where name = "''jsr_get_stats''"
      and R = "respond (jsonResponse JNull)" and config = defaultConfig
      and args = "JObj [(''verbose'', JBool True)]" and args' = "JObj []"]
    by blast
  show ?thesis
    using s d p n c1 c2 by simp
qed

section \<open>The empty token\<close>

lemma handleJSRTool_empty_token:
  "handleJSRTool R name args (config\<lparr> apiToken := Some [] \<rparr>)
     = handleJSRTool R name args (config\<lparr> apiToken := None \<rparr>)"
  by (simp add: handleJSRTool_def handleJSRTool_try_empty_token)

text \<open>
  Claim C9: a configuration whose \<open>apiToken\<close> is the empty string behaves as one without
  a token. Both request builders issue the same request and return the same result for
  the two configurations, and add no \<open>Authorization\<close> header (so the request has none
  unless the caller's own options carry one); every call of the dispatcher returns the
  same envelope and issues the same requests, none with an \<open>Authorization\<close> header.
\<close>

theorem empty_token_is_no_token:
  "makeApiRequest R (config\<lparr> apiToken := Some [] \<rparr>) endpoint options
     = makeApiRequest R (config\<lparr> apiToken := None \<rparr>) endpoint options
   \<and> lib_makeApiRequest R (config\<lparr> apiToken := Some [] \<rparr>) endpoint options
     = lib_makeApiRequest R (config\<lparr> apiToken := None \<rparr>) endpoint options
   \<and> (map_of (headersOf options) ''Authorization'' = None \<longrightarrow>
        noAuthorization (snd (makeApiRequest R (config\<lparr> apiToken := Some [] \<rparr>) endpoint options))
        \<and> noAuthorization (snd (lib_makeApiRequest R (config\<lparr> apiToken := Some [] \<rparr>) endpoint options)))
   \<and> handleJSRTool R name args (config\<lparr> apiToken := Some [] \<rparr>)
     = handleJSRTool R name args (config\<lparr> apiToken := None \<rparr>)
   \<and> noAuthorization (snd (handleJSRTool R name args (config\<lparr> apiToken := Some [] \<rparr>)))"
proof -
  have "noAuthorization (snd (handleJSRTool R name args (config\<lparr> apiToken := Some [] \<rparr>)))"
    using noAuth_handleJSRTool_try [of "config\<lparr> apiToken := Some [] \<rparr>" R name args]
    by (simp add: handleJSRTool_requests)
  then show ?thesis
    by (simp add: makeApiRequest_empty_token lib_makeApiRequest_empty_token handleJSRTool_empty_token
          noAuth_makeApiRequest noAuth_lib_makeApiRequest)
qed

theorem empty_token_is_no_token_witness:
  "map_of (headersOf noOptions) ''Authorization'' = None
   \<and> noAuthorization (snd (makeApiRequest (respond (jsonResponse JNull))
         (defaultConfig\<lparr> apiToken := Some [] \<rparr>) ''/user'' noOptions))
   \<and> noAuthorization (snd (lib_makeApiRequest (respond (jsonResponse JNull))
         (defaultConfig\<lparr> apiToken := Some [] \<rparr>) ''/user'' noOptions))
   \<and> snd (handleJSRTool (respond (jsonResponse JNull)) ''jsr_get_current_user'' JNull
         (defaultConfig\<lparr> apiToken := Some [] \<rparr>))
       = [(''https://api.jsr.io/user'',
           \<lparr> httpMethod = None,
             headers = Some [(''Content-Type'', ''application/json''),
                             (''User-Agent'', ''jsr-mcp/0.0.0; https://github.com/wyattjoh/jsr-mcp'')],
             body = None \<rparr>)]"
proof -
  have h: "map_of (headersOf noOptions) ''Authorization'' = None"
    by (simp add: headersOf_def noOptions_def)
  have r: "snd (handleJSRTool (respond (jsonResponse JNull)) ''jsr_get_current_user'' JNull
         (defaultConfig\<lparr> apiToken := Some [] \<rparr>))
       = [(''https://api.jsr.io/user'',
           \<lparr> httpMethod = None,
             headers = Some [(''Content-Type'', ''application/json''),
                             (''User-Agent'', ''jsr-mcp/0.0.0; https://github.com/wyattjoh/jsr-mcp'')],
             body = None \<rparr>)]"
    by (simp add: handleJSRTool_requests handleJSRTool_try_def case_jsr_get_current_user_def
          getCurrentUser_def makeApiRequest_def apiHeaders_def spread_def noOptions_def Let_def
          snd_bind respond_def defaultConfig_def createJSRConfig_def removeTrailingSlash_def
          jsonResult_def textResult_def ret_def apiTry_def apiCatch_def ok_def jsonResponse_def)
  have t: "noAuthorization (snd (makeApiRequest (respond (jsonResponse JNull))
         (defaultConfig\<lparr> apiToken := Some [] \<rparr>) ''/user'' noOptions))
   \<and> noAuthorization (snd (lib_makeApiRequest (respond (jsonResponse JNull))
         (defaultConfig\<lparr> apiToken := Some [] \<rparr>) ''/user'' noOptions))"
    using h
      empty_token_is_no_token [where options = noOptions and R = "respond (jsonResponse JNull)"
        and config = defaultConfig and endpoint = "''/user''" and name = "''jsr_get_current_user''"
        and args = JNull]
    by blast
  show ?thesis
    using h r t by blast
qed

section \<open>Status 204 in the two request builders\<close>

lemma lib_apiTry_204:
  "status r = 204 \<Longrightarrow> lib_apiTry (Inr r) = Inr JUndefined"
  by (simp add: lib_apiTry_def ok_def)

lemma lib_apiTry_2xx:
  "ok r \<Longrightarrow> status r \<noteq> 204 \<Longrightarrow> lib_apiTry (Inr r) = bodyJson r"
  by (simp add: lib_apiTry_def)

lemma apiTry_2xx:
  "ok r \<Longrightarrow> apiTry (Inr r) = bodyJson r"
  by (simp add: apiTry_def)

lemma apiTry_agree:
  "(\<And>r. fetched = Inr r \<Longrightarrow> status r \<noteq> 204) \<Longrightarrow> apiTry fetched = lib_apiTry fetched"
  by (auto simp: apiTry_def lib_apiTry_def split: sum.splits)

lemma lib_makeApiRequest_204:
  "(\<And>url init. fetch R url init = Inr r) \<Longrightarrow> status r = 204 \<Longrightarrow>
   fst (lib_makeApiRequest R config endpoint options) = Inr JUndefined"
  by (simp add: lib_makeApiRequest_def Let_def lib_apiTry_204 apiCatch_def)

lemma makeApiRequest_204:
  "(\<And>url init. fetch R url init = Inr r) \<Longrightarrow> status r = 204 \<Longrightarrow>
   fst (makeApiRequest R config endpoint options)
     = (case bodyJson r of Inl m \<Rightarrow> Inl (Error (''JSR API request failed: '' @ m)) | Inr v \<Rightarrow> Inr v)"
  by (simp add: makeApiRequest_def Let_def apiTry_def ok_def apiCatch_def)

text \<open>
  Claim C6 holds for the library's builder (\<open>lib_makeApiRequest_204\<close>,
  \<open>lib_apiTry_2xx\<close>) and fails for the builder of \<open>clients/jsr.ts\<close>, which has no
  branch for status 204 and decodes every successful response. On the empty body of a
  204 the decoding fails: the request of a successful \<open>DELETE\<close> is reported as failed,
  and the dispatcher answers \<open>jsr_delete_scope\<close> with an error envelope.
\<close>

theorem makeApiRequest_decodes_204:
  "fst (makeApiRequest (respond noContent) defaultConfig ''/scopes/temp'' (withMethod ''DELETE''))
     = Inl (Error ''JSR API request failed: Unexpected end of JSON input'')
   \<and> fst (handleJSRTool (respond noContent) ''jsr_delete_scope'' (JObj [(''scope'', JStr ''temp'')])
           defaultConfig)
     = \<lparr> content = [\<lparr> ptype = ''text'',
                       ptext = ''Error: JSR API request failed: Unexpected end of JSON input'' \<rparr>],
         isError = Some True \<rparr>"
proof -
  have f: "\<And>url init. fetch (respond noContent) url init = Inr noContent"
    by (simp add: respond_def)
  have s: "status noContent = 204" "bodyJson noContent = Inl ''Unexpected end of JSON input''"
    by (simp_all add: noContent_def)
  have m: "fst (makeApiRequest (respond noContent) config endpoint options)
        = Inl (Error ''JSR API request failed: Unexpected end of JSON input'')" for config endpoint options
    using makeApiRequest_204 [of "respond noContent" noContent config endpoint options] f s by simp
  have p: "parse (respond noContent) DeleteScopeSchema (JObj [(''scope'', JStr ''temp'')])
        = ret (JObj [(''scope'', JStr ''temp'')])"
    by (simp add: parse_def DeleteScopeSchema_def GetScopeSchema_def ScopeNameSchema_def
          List.map_filter_def matchesName_def isLower_def isLowerAlnum_def)
  have "fst (handleJSRTool_try (respond noContent) ''jsr_delete_scope'' (JObj [(''scope'', JStr ''temp'')])
           defaultConfig) = Inl (Error ''JSR API request failed: Unexpected end of JSON input'')"
    by (simp add: handleJSRTool_try_def p case_jsr_delete_scope_def deleteScope_def discard_def
          fst_bind m)
  then show ?thesis
    using m by (simp add: handleJSRTool_error errorResult_def)
qed

text \<open>
  Claim C8 fails at the same place: the two builders treat every response alike
  (\<open>apiTry_agree\<close>) except one with status 204, where the copy in \<open>clients/jsr.ts\<close>
  fails on decoding and the library's copy returns \<open>undefined\<close>.
\<close>

theorem makeApiRequest_copies_differ_at_204:
  "fst (makeApiRequest (respond noContent) defaultConfig ''/scopes/temp'' (withMethod ''DELETE''))
     = Inl (Error ''JSR API request failed: Unexpected end of JSON input'')
   \<and> fst (lib_makeApiRequest (respond noContent) defaultConfig ''/scopes/temp'' (withMethod ''DELETE''))
     = Inr JUndefined"
proof -
  have f: "\<And>url init. fetch (respond noContent) url init = Inr noContent"
    by (simp add: respond_def)
  have s: "status noContent = 204" "bodyJson noContent = Inl ''Unexpected end of JSON input''"
    by (simp_all add: noContent_def)
  show ?thesis
    using makeApiRequest_204 [of "respond noContent" noContent] lib_makeApiRequest_204 [of "respond noContent" noContent]
      f s by simp
qed

section \<open>An unreadable tarball\<close>

lemma server_create_package_version_unreadable:
  assumes "readFile R tarballPath = Inl m"
  shows "server_jsr_create_package_version R config scope name v configPath tarballPath
           = (\<lparr> content = [\<lparr> ptype = ''text'', ptext = ''Error: '' @ m \<rparr>], isError = None \<rparr>, [])"
  using assms
  by (simp add: server_jsr_create_package_version_def readFileAsync_def serverCatch_def throw_def)

text \<open>
  Claim C7 holds for the dispatcher (\<open>handleJSRTool_create_package_version_unreadable\<close>:
  the schema accepts any string as path, the rejected read is caught, the envelope has
  \<open>isError = true\<close> and no request is issued). The handler of the server package
  catches the same failure and issues no request, but returns its envelope without the
  \<open>isError\<close> flag.
\<close>

theorem server_handler_omits_isError:
  "server_jsr_create_package_version (respond noContent) defaultConfig
      ''std'' ''fs'' ''1.0.0'' ''/deno.json'' ''/tmp/missing.tgz''
     = (\<lparr> content = [\<lparr> ptype = ''text'',
                        ptext = ''Error: No such file or directory (os error 2): readfile /tmp/missing.tgz'' \<rparr>],
          isError = None \<rparr>, [])
   \<and> handleJSRTool (respond noContent) ''jsr_create_package_version''
        (JObj [(''scope'', JStr ''std''), (''name'', JStr ''fs''), (''version'', JStr ''1.0.0''),
               (''configPath'', JStr ''/deno.json''), (''tarballPath'', JStr ''/tmp/missing.tgz'')])
        defaultConfig
     = (\<lparr> content = [\<lparr> ptype = ''text'',
                        ptext = ''Error: No such file or directory (os error 2): readfile /tmp/missing.tgz'' \<rparr>],
          isError = Some True \<rparr>, [])"
proof -
  have r: "readFile (respond noContent) ''/tmp/missing.tgz''
             = Inl ''No such file or directory (os error 2): readfile /tmp/missing.tgz''"
    by (simp add: respond_def)
  have n: "matchesName ''std''" "matchesName ''fs''"
    by (simp_all add: matchesName_def isLower_def isLowerAlnum_def)
  show ?thesis
    using server_create_package_version_unreadable [OF r]
      handleJSRTool_create_package_version_unreadable
        [OF CreatePackageVersionSchema_accepts_any_path [OF n], of "respond noContent"]
      r
    by (simp add: errorResult_def)
qed

section \<open>From a skip count to a page number\<close>

text \<open>The division of the model is the floor of the exact quotient, for either sign.\<close>

lemma floorDivPlus1_is_floor:
  "b \<noteq> 0 \<Longrightarrow> floorDivPlus1 a b = Fin (\<lfloor>real_of_int a / real_of_int b\<rfloor> + 1)"
  by (simp add: floorDivPlus1_def floor_divide_of_int_eq)






section \<open>The paginated responses\<close>










end
